theory Spec2Isabelle
  imports Main "HOL-Library.Word"
begin

section \<open>The encrypted-value library as the contract sees it\<close>

text \<open>
  The contract \<open>BambooHoldSpeech\<close> imports the library \<open>FHE\<close> and its types \<open>euint8\<close>,
  \<open>euint16\<close>, \<open>euint32\<close>, \<open>ebool\<close> and \<open>externalEuint16\<close> from \<open>@fhevm/solidity\<close>, which is
  not part of the repository. The contract never holds a plaintext: an \<open>euint16\<close> is a
  32-byte handle naming a ciphertext that lives in the coprocessor, and every \<open>FHE.*\<close>
  call returns the handle of a new ciphertext. A handle is the hash of the operation and
  of the handles it was applied to, so it is modelled as the term that was hashed.
\<close>

datatype fhe_op = FheAdd | FheMul | FheGe | FheIfThenElse | FheCast nat

datatype handle =
    Uninitialized
  | ExternalInput nat
  | TrivialEncrypt nat nat
  | Computed fhe_op "handle list"

text \<open>
  Modelled from the spec: the ciphertext handle of the library, an opaque fixed-width
  encrypted scalar (16 bits for the raw inputs, 32 bits for the score, 8 bits for the
  tier). A ciphertext is its handle together with the plaintext it hides. The plaintext
  is ghost state: the contract code below never reads it, only the operations of the
  library compute on it, at the width of the encrypted type.
\<close>

datatype 'a ciphertext = Ciphertext (handle_of: handle) (plaintext: 'a)

type_synonym ebool = "bool ciphertext"
type_synonym euint8 = "8 word ciphertext"
type_synonym euint16 = "16 word ciphertext"
type_synonym euint32 = "32 word ciphertext"

type_synonym address = nat
type_synonym uint256 = nat
type_synonym externalEuint16 = nat
type_synonym bytes = "nat list"

text \<open>
  Modelled from the spec: \<open>FHE.asEuint16(uint16)\<close> of the library, the encryption of a
  public constant at 16 bits (the fixed integer weights and the scaled thresholds).
\<close>

definition FHE_asEuint16 :: "16 word \<Rightarrow> euint16" where
  "FHE_asEuint16 v = Ciphertext (TrivialEncrypt (unat v) 16) v"

text \<open>
  Modelled from the spec: \<open>FHE.asEuint8(uint8)\<close> of the library, the encryption of a
  public constant at 8 bits (the tier labels 0, 1 and 2).
\<close>

definition FHE_asEuint8 :: "8 word \<Rightarrow> euint8" where
  "FHE_asEuint8 v = Ciphertext (TrivialEncrypt (unat v) 8) v"

text \<open>
  Modelled from the spec: \<open>FHE.mul\<close> of the library on two \<open>euint16\<close>, the homomorphic
  product that scales an input by its weight. The result is an \<open>euint16\<close>, so the
  product is taken modulo \<open>2 ^ 16\<close> (word arithmetic wraps).
\<close>

definition FHE_mul :: "euint16 \<Rightarrow> euint16 \<Rightarrow> euint16" where
  "FHE_mul a b =
     Ciphertext (Computed FheMul [handle_of a, handle_of b]) (plaintext a * plaintext b)"

text \<open>
  Modelled from the spec: \<open>FHE.add\<close> of the library on two \<open>euint16\<close>, the homomorphic
  sum of the weighted terms, modulo \<open>2 ^ 16\<close>.
\<close>

definition FHE_add :: "euint16 \<Rightarrow> euint16 \<Rightarrow> euint16" where
  "FHE_add a b =
     Ciphertext (Computed FheAdd [handle_of a, handle_of b]) (plaintext a + plaintext b)"

text \<open>
  Modelled from the spec: \<open>FHE.asEuint32(euint16)\<close> of the library, which widens the
  scaled total into the 32-bit output width (the value is zero-extended).
\<close>

definition FHE_asEuint32 :: "euint16 \<Rightarrow> euint32" where
  "FHE_asEuint32 a = Ciphertext (Computed (FheCast 32) [handle_of a]) (ucast (plaintext a))"

text \<open>
  Modelled from the spec: \<open>FHE.ge\<close> of the library, the encrypted predicate
  \<open>total >= threshold\<close> on unsigned 16-bit values.
\<close>

definition FHE_ge :: "euint16 \<Rightarrow> euint16 \<Rightarrow> ebool" where
  "FHE_ge a b =
     Ciphertext (Computed FheGe [handle_of a, handle_of b]) (plaintext b \<le> plaintext a)"

text \<open>
  Modelled from the spec: \<open>FHE.select(c, a, b)\<close> of the library, the encrypted conditional
  selection \<open>c ? a : b\<close>.
\<close>

definition FHE_select :: "ebool \<Rightarrow> euint8 \<Rightarrow> euint8 \<Rightarrow> euint8" where
  "FHE_select c a b =
     Ciphertext (Computed FheIfThenElse [handle_of c, handle_of a, handle_of b])
       (if plaintext c then plaintext a else plaintext b)"

section \<open>The risk classifier\<close>

definition MODERATE_THRESHOLD :: "16 word" where
  "MODERATE_THRESHOLD = 1110"

definition HIGH_RISK_THRESHOLD :: "16 word" where
  "HIGH_RISK_THRESHOLD = 1850"

text \<open>
  \<open>_calculateRiskScore\<close>: the weighted sum \<open>emotional * 12 + social * 10 + sleep * 15\<close>
  at 16 bits, cast to 32 bits for the score, and the level chosen by two selects.
\<close>

definition calculateRiskScore :: "euint16 \<Rightarrow> euint16 \<Rightarrow> euint16 \<Rightarrow> euint32 \<times> euint8" where
  "calculateRiskScore emotional social sleep =
     (let emotionalWeighted = FHE_mul emotional (FHE_asEuint16 12);
          socialWeighted = FHE_mul social (FHE_asEuint16 10);
          sleepWeighted = FHE_mul sleep (FHE_asEuint16 15);
          totalWeighted = FHE_add emotionalWeighted socialWeighted;
          totalWeighted = FHE_add totalWeighted sleepWeighted;
          riskScore = FHE_asEuint32 totalWeighted;
          isHighRisk = FHE_ge totalWeighted (FHE_asEuint16 HIGH_RISK_THRESHOLD);
          isModerateRisk = FHE_ge totalWeighted (FHE_asEuint16 MODERATE_THRESHOLD);
          level0 = FHE_asEuint8 0;
          level1 = FHE_asEuint8 1;
          level2 = FHE_asEuint8 2;
          cautionWindow = FHE_select isHighRisk level2 level1;
          cautionWindow = FHE_select isModerateRisk cautionWindow level0
      in (riskScore, cautionWindow))"

section \<open>Contract storage and the access-control list\<close>

record MetricsRecord =
  emotionalFluctuation :: euint16
  socialFatigue :: euint16
  sleepDebt :: euint16
  riskScore :: euint32
  cautionWindow :: euint8
  timestamp :: uint256

text \<open>
  The three mappings of the contract, and the persistent pairs of the access-control
  list (handle, account) that \<open>FHE.allow\<close> writes. A mapping gives the zero value at a key
  never written: the empty array, the record of uninitialised handles with timestamp 0,
  the count 0.
\<close>

record storage =
  userHistory :: "address \<Rightarrow> MetricsRecord list"
  latestMetrics :: "address \<Rightarrow> MetricsRecord"
  submissionCount :: "address \<Rightarrow> uint256"
  acl :: "(handle \<times> address) set"

definition zero_record :: MetricsRecord where
  "zero_record =
     \<lparr>emotionalFluctuation = Ciphertext Uninitialized 0,
      socialFatigue = Ciphertext Uninitialized 0,
      sleepDebt = Ciphertext Uninitialized 0,
      riskScore = Ciphertext Uninitialized 0,
      cautionWindow = Ciphertext Uninitialized 0,
      timestamp = 0\<rparr>"

definition deployed :: storage where
  "deployed =
     \<lparr>userHistory = (\<lambda>_. []),
      latestMetrics = (\<lambda>_. zero_record),
      submissionCount = (\<lambda>_. 0),
      acl = {}\<rparr>"

datatype event =
    MetricsSubmitted address uint256 uint256
  | CautionWindowUpdated address uint256

text \<open>
  A call reverts with the reason string of a failed \<open>require\<close>, with a panic code
  (\<open>0x11\<close>, arithmetic overflow of a checked \<open>uint256\<close> operation), or because the input
  verifier rejects the proof of an external ciphertext.
\<close>

datatype error = Revert string | Panic nat | InvalidInputProof

definition NoSubmission :: error where
  "NoSubmission = Revert ''No metrics submitted yet''"

definition IndexOutOfBounds :: error where
  "IndexOutOfBounds = Revert ''Index out of bounds''"

text \<open>
  The input verifier is outside the repository: given the contract, the sender, the
  external handle and the proof bytes it either rejects, or yields the ciphertext the
  client encrypted. It is a parameter of every call that imports a ciphertext.
\<close>

type_synonym input_verifier = "address \<Rightarrow> address \<Rightarrow> externalEuint16 \<Rightarrow> bytes \<Rightarrow> euint16 option"

record call_context =
  this :: address
  msg_sender :: address
  block_timestamp :: uint256

text \<open>
  Modelled from the spec: \<open>FHE.fromExternal\<close> of the library. Raw values enter as
  ciphertexts with an integrity proof that the substrate verifies before it accepts
  them; a rejected proof reverts the call.
\<close>

definition FHE_fromExternal ::
  "input_verifier \<Rightarrow> call_context \<Rightarrow> externalEuint16 \<Rightarrow> bytes \<Rightarrow> error + euint16" where
  "FHE_fromExternal verifier ctx inputHandle inputProof =
     (case verifier (this ctx) (msg_sender ctx) inputHandle inputProof of
        None \<Rightarrow> Inl InvalidInputProof
      | Some c \<Rightarrow> Inr c)"

text \<open>
  Modelled from the spec: \<open>FHE.allow(value, account)\<close> and \<open>FHE.allowThis(value)\<close> of the
  library, the additive and idempotent grant of the authorization ledger: the pair
  (handle, account) is recorded, and recording it again changes nothing. The contract is
  the creator of the handles it imports or computes, and \<open>allowThis\<close> keeps its right for
  later transactions, so the grants of this contract are accepted.
\<close>

definition FHE_allow :: "'a ciphertext \<Rightarrow> address \<Rightarrow> storage \<Rightarrow> storage" where
  "FHE_allow c account st = st\<lparr>acl := insert (handle_of c, account) (acl st)\<rparr>"

definition FHE_allowThis :: "call_context \<Rightarrow> 'a ciphertext \<Rightarrow> storage \<Rightarrow> storage" where
  "FHE_allowThis ctx c st = FHE_allow c (this ctx) st"

definition max_uint256 :: nat where
  "max_uint256 = 2 ^ 256 - 1"

section \<open>submitMetrics\<close>

text \<open>The fifteen grants of \<open>submitMetrics\<close>, in the order of the source.\<close>

definition submit_grants ::
  "call_context \<Rightarrow> euint16 \<Rightarrow> euint16 \<Rightarrow> euint16 \<Rightarrow> euint32 \<Rightarrow> euint8 \<Rightarrow> storage \<Rightarrow> storage" where
  "submit_grants ctx emotional social sleep riskScore' cautionWindow' st =
     (let st = FHE_allow riskScore' (msg_sender ctx) st;
          st = FHE_allow cautionWindow' (msg_sender ctx) st;
          st = FHE_allow emotional (msg_sender ctx) st;
          st = FHE_allow social (msg_sender ctx) st;
          st = FHE_allow sleep (msg_sender ctx) st;
          st = FHE_allowThis ctx emotional st;
          st = FHE_allowThis ctx social st;
          st = FHE_allowThis ctx sleep st;
          st = FHE_allowThis ctx riskScore' st;
          st = FHE_allowThis ctx cautionWindow' st;
          st = FHE_allow emotional (this ctx) st;
          st = FHE_allow social (this ctx) st;
          st = FHE_allow sleep (this ctx) st;
          st = FHE_allow riskScore' (this ctx) st;
          st = FHE_allow cautionWindow' (this ctx) st
      in st)"

text \<open>
  The body of \<open>submitMetrics\<close>. An \<open>Inl\<close> is a revert: the caller's storage is then
  the one before the call (see \<open>transact\<close>). \<open>submissionCount[msg.sender]++\<close> is checked
  arithmetic and panics at the largest \<open>uint256\<close>.
\<close>

definition submitMetrics ::
  "input_verifier \<Rightarrow> call_context \<Rightarrow> externalEuint16 \<Rightarrow> externalEuint16 \<Rightarrow> externalEuint16 \<Rightarrow> bytes
     \<Rightarrow> storage \<Rightarrow> error + (storage \<times> event list)" where
  "submitMetrics verifier ctx inputEmotional inputSocial inputSleep inputProof st =
     (case FHE_fromExternal verifier ctx inputEmotional inputProof of
        Inl e \<Rightarrow> Inl e
      | Inr emotional \<Rightarrow>
     (case FHE_fromExternal verifier ctx inputSocial inputProof of
        Inl e \<Rightarrow> Inl e
      | Inr social \<Rightarrow>
     (case FHE_fromExternal verifier ctx inputSleep inputProof of
        Inl e \<Rightarrow> Inl e
      | Inr sleep \<Rightarrow>
     (case calculateRiskScore emotional social sleep of
        (riskScore', cautionWindow') \<Rightarrow>
       (let record =
              \<lparr>emotionalFluctuation = emotional,
               socialFatigue = social,
               sleepDebt = sleep,
               riskScore = riskScore',
               cautionWindow = cautionWindow',
               timestamp = block_timestamp ctx\<rparr>;
            sender = msg_sender ctx;
            st = st\<lparr>userHistory := (userHistory st)(sender := userHistory st sender @ [record])\<rparr>;
            st = st\<lparr>latestMetrics := (latestMetrics st)(sender := record)\<rparr>
        in if submissionCount st sender = max_uint256 then Inl (Panic 17)
           else
             (let st = st\<lparr>submissionCount :=
                          (submissionCount st)(sender := submissionCount st sender + 1)\<rparr>;
                  st = submit_grants ctx emotional social sleep riskScore' cautionWindow' st
              in Inr (st,
                   [MetricsSubmitted sender (block_timestamp ctx)
                      (length (userHistory st sender) - 1),
                    CautionWindowUpdated sender (block_timestamp ctx)])))))))"

section \<open>Read accessors\<close>

text \<open>
  Each external view function takes the caller from \<open>msg.sender\<close> and either reverts or
  returns its tuple. The three accessors of the latest record test its timestamp.
\<close>

definition getCautionWindow :: "call_context \<Rightarrow> storage \<Rightarrow> error + euint8" where
  "getCautionWindow ctx st =
     (if timestamp (latestMetrics st (msg_sender ctx)) > 0
      then Inr (cautionWindow (latestMetrics st (msg_sender ctx)))
      else Inl NoSubmission)"

definition getRiskScore :: "call_context \<Rightarrow> storage \<Rightarrow> error + euint32" where
  "getRiskScore ctx st =
     (if timestamp (latestMetrics st (msg_sender ctx)) > 0
      then Inr (riskScore (latestMetrics st (msg_sender ctx)))
      else Inl NoSubmission)"

definition getLatestMetrics ::
  "call_context \<Rightarrow> storage \<Rightarrow> error + (euint16 \<times> euint16 \<times> euint16 \<times> uint256)" where
  "getLatestMetrics ctx st =
     (if timestamp (latestMetrics st (msg_sender ctx)) > 0
      then (let record = latestMetrics st (msg_sender ctx)
            in Inr (emotionalFluctuation record, socialFatigue record, sleepDebt record,
                    timestamp record))
      else Inl NoSubmission)"

definition getHistoryCount :: "call_context \<Rightarrow> storage \<Rightarrow> error + uint256" where
  "getHistoryCount ctx st = Inr (length (userHistory st (msg_sender ctx)))"

definition getMetricsAtIndex ::
  "call_context \<Rightarrow> uint256 \<Rightarrow> storage
     \<Rightarrow> error + (euint16 \<times> euint16 \<times> euint16 \<times> euint32 \<times> euint8 \<times> uint256)" where
  "getMetricsAtIndex ctx index st =
     (if index < length (userHistory st (msg_sender ctx))
      then (let record = userHistory st (msg_sender ctx) ! index
            in Inr (emotionalFluctuation record, socialFatigue record, sleepDebt record,
                    riskScore record, cautionWindow record, timestamp record))
      else Inl IndexOutOfBounds)"

definition getSummary :: "call_context \<Rightarrow> storage \<Rightarrow> error + (uint256 \<times> uint256)" where
  "getSummary ctx st =
     (let totalSubmissions = submissionCount st (msg_sender ctx);
          lastTimestamp = timestamp (latestMetrics st (msg_sender ctx))
      in Inr (totalSubmissions, lastTimestamp))"

definition getLastUpdateTimestamp :: "call_context \<Rightarrow> storage \<Rightarrow> error + uint256" where
  "getLastUpdateTimestamp ctx st = Inr (timestamp (latestMetrics st (msg_sender ctx)))"

text \<open>The getter the compiler generates for the public mapping \<open>submissionCount\<close>.\<close>

definition getSubmissionCount :: "address \<Rightarrow> storage \<Rightarrow> error + uint256" where
  "getSubmissionCount user st = Inr (submissionCount st user)"

section \<open>Re-authorisation\<close>

text \<open>
  The block of ten grants that \<open>reauthorizeRecord\<close> and \<open>reauthorizeAllRecords\<close> issue on
  a record: the five fields to the caller, then the five fields to the contract.
\<close>

definition allow_record :: "call_context \<Rightarrow> MetricsRecord \<Rightarrow> storage \<Rightarrow> storage" where
  "allow_record ctx record st =
     (let st = FHE_allow (emotionalFluctuation record) (msg_sender ctx) st;
          st = FHE_allow (socialFatigue record) (msg_sender ctx) st;
          st = FHE_allow (sleepDebt record) (msg_sender ctx) st;
          st = FHE_allow (riskScore record) (msg_sender ctx) st;
          st = FHE_allow (cautionWindow record) (msg_sender ctx) st;
          st = FHE_allow (emotionalFluctuation record) (this ctx) st;
          st = FHE_allow (socialFatigue record) (this ctx) st;
          st = FHE_allow (sleepDebt record) (this ctx) st;
          st = FHE_allow (riskScore record) (this ctx) st;
          st = FHE_allow (cautionWindow record) (this ctx) st
      in st)"

definition reauthorizeRecord ::
  "call_context \<Rightarrow> uint256 \<Rightarrow> storage \<Rightarrow> error + (storage \<times> event list)" where
  "reauthorizeRecord ctx index st =
     (if index < length (userHistory st (msg_sender ctx))
      then (let record = userHistory st (msg_sender ctx) ! index;
                st = allow_record ctx record st;
                st = (if index = length (userHistory st (msg_sender ctx)) - 1
                      then allow_record ctx (latestMetrics st (msg_sender ctx)) st
                      else st)
            in Inr (st, []))
      else Inl IndexOutOfBounds)"

text \<open>The loop \<open>for (uint256 i = 0; i < count; i++)\<close> of \<open>reauthorizeAllRecords\<close>.\<close>

function reauthorize_loop :: "call_context \<Rightarrow> nat \<Rightarrow> nat \<Rightarrow> storage \<Rightarrow> storage" where
  "reauthorize_loop ctx i count st =
     (if i < count
      then reauthorize_loop ctx (i + 1) count
             (allow_record ctx (userHistory st (msg_sender ctx) ! i) st)
      else st)"
  by pat_completeness auto
termination
  by (relation "measure (\<lambda>(ctx, i, count, st). count - i)") auto

declare reauthorize_loop.simps [simp del]

definition reauthorizeAllRecords :: "call_context \<Rightarrow> storage \<Rightarrow> error + (storage \<times> event list)" where
  "reauthorizeAllRecords ctx st =
     (let count = length (userHistory st (msg_sender ctx));
          st = reauthorize_loop ctx 0 count st;
          st = (if count > 0
                then allow_record ctx (latestMetrics st (msg_sender ctx)) st
                else st)
      in Inr (st, []))"

section \<open>Transactions\<close>

datatype call =
    SubmitMetrics externalEuint16 externalEuint16 externalEuint16 bytes
  | GetCautionWindow
  | GetRiskScore
  | GetLatestMetrics
  | GetHistoryCount
  | GetMetricsAtIndex uint256
  | GetSummary
  | GetLastUpdateTimestamp
  | GetSubmissionCount address
  | ReauthorizeRecord uint256
  | ReauthorizeAllRecords

text \<open>A view function leaves the storage as it is and logs nothing, whether it reverts or not.\<close>

definition view_only :: "storage \<Rightarrow> error + 'a \<Rightarrow> error + (storage \<times> event list)" where
  "view_only st r = (case r of Inl e \<Rightarrow> Inl e | Inr _ \<Rightarrow> Inr (st, []))"

fun execute ::
  "input_verifier \<Rightarrow> call_context \<Rightarrow> call \<Rightarrow> storage \<Rightarrow> error + (storage \<times> event list)" where
  "execute verifier ctx (SubmitMetrics e s p inputProof) st =
     submitMetrics verifier ctx e s p inputProof st"
| "execute verifier ctx GetCautionWindow st = view_only st (getCautionWindow ctx st)"
| "execute verifier ctx GetRiskScore st = view_only st (getRiskScore ctx st)"
| "execute verifier ctx GetLatestMetrics st = view_only st (getLatestMetrics ctx st)"
| "execute verifier ctx GetHistoryCount st = view_only st (getHistoryCount ctx st)"
| "execute verifier ctx (GetMetricsAtIndex i) st = view_only st (getMetricsAtIndex ctx i st)"
| "execute verifier ctx GetSummary st = view_only st (getSummary ctx st)"
| "execute verifier ctx GetLastUpdateTimestamp st = view_only st (getLastUpdateTimestamp ctx st)"
| "execute verifier ctx (GetSubmissionCount user) st =
     view_only st (getSubmissionCount user st)"
| "execute verifier ctx (ReauthorizeRecord i) st = reauthorizeRecord ctx i st"
| "execute verifier ctx ReauthorizeAllRecords st = reauthorizeAllRecords ctx st"

text \<open>
  A transaction is a call with its sender and the timestamp of its block. A call that
  reverts leaves the storage untouched and logs no event; one that returns commits its
  storage and its events.
\<close>

record transaction =
  tx_sender :: address
  tx_timestamp :: uint256
  tx_call :: call

definition tx_context :: "address \<Rightarrow> transaction \<Rightarrow> call_context" where
  "tx_context contract t =
     \<lparr>this = contract, msg_sender = tx_sender t, block_timestamp = tx_timestamp t\<rparr>"

definition transact ::
  "input_verifier \<Rightarrow> address \<Rightarrow> transaction \<Rightarrow> storage \<Rightarrow> storage \<times> event list" where
  "transact verifier contract t st =
     (case execute verifier (tx_context contract t) (tx_call t) st of
        Inl e \<Rightarrow> (st, [])
      | Inr (st', events) \<Rightarrow> (st', events))"

fun run :: "input_verifier \<Rightarrow> address \<Rightarrow> transaction list \<Rightarrow> storage \<Rightarrow> storage" where
  "run verifier contract [] st = st"
| "run verifier contract (t # ts) st =
     run verifier contract ts (fst (transact verifier contract t st))"

text \<open>The number of calls to \<open>submitMetrics\<close> by \<open>user\<close> that returned, along a run.\<close>

fun is_submit :: "call \<Rightarrow> bool" where
  "is_submit (SubmitMetrics e s p inputProof) = True"
| "is_submit c = False"

fun successful_submits ::
  "input_verifier \<Rightarrow> address \<Rightarrow> address \<Rightarrow> transaction list \<Rightarrow> storage \<Rightarrow> nat" where
  "successful_submits verifier contract user [] st = 0"
| "successful_submits verifier contract user (t # ts) st =
     (if tx_sender t = user \<and> is_submit (tx_call t)
         \<and> isl (execute verifier (tx_context contract t) (tx_call t) st) = False
      then 1 else 0)
     + successful_submits verifier contract user ts (fst (transact verifier contract t st))"

section \<open>Vocabulary of the properties\<close>

text \<open>The scaled total and the tier as the specification words them, on plain numbers.\<close>

definition spec_total :: "nat \<Rightarrow> nat \<Rightarrow> nat \<Rightarrow> nat" where
  "spec_total e s p = 12 * e + 10 * s + 15 * p"

definition spec_tier :: "nat \<Rightarrow> nat" where
  "spec_tier t = (if t \<ge> 1850 then 2 else if t \<ge> 1110 then 1 else 0)"

text \<open>The record a submission of three accepted ciphertexts stores, and its five handles.\<close>

definition new_record :: "call_context \<Rightarrow> euint16 \<Rightarrow> euint16 \<Rightarrow> euint16 \<Rightarrow> MetricsRecord" where
  "new_record ctx emotional social sleep =
     \<lparr>emotionalFluctuation = emotional,
      socialFatigue = social,
      sleepDebt = sleep,
      riskScore = fst (calculateRiskScore emotional social sleep),
      cautionWindow = snd (calculateRiskScore emotional social sleep),
      timestamp = block_timestamp ctx\<rparr>"

definition record_handles :: "MetricsRecord \<Rightarrow> handle set" where
  "record_handles r =
     {handle_of (emotionalFluctuation r), handle_of (socialFatigue r), handle_of (sleepDebt r),
      handle_of (riskScore r), handle_of (cautionWindow r)}"

text \<open>The storage after a submission of record \<open>r\<close> by the sender of \<open>ctx\<close> has committed.\<close>

definition committed :: "call_context \<Rightarrow> MetricsRecord \<Rightarrow> storage \<Rightarrow> storage" where
  "committed ctx r st =
     st\<lparr>userHistory := (userHistory st)(msg_sender ctx := userHistory st (msg_sender ctx) @ [r]),
        latestMetrics := (latestMetrics st)(msg_sender ctx := r),
        submissionCount :=
          (submissionCount st)(msg_sender ctx := submissionCount st (msg_sender ctx) + 1),
        acl := acl st \<union> record_handles r \<times> {msg_sender ctx, this ctx}\<rparr>"

text \<open>Two storages that agree on the three mappings of the contract.\<close>

definition same_ledger :: "storage \<Rightarrow> storage \<Rightarrow> bool" where
  "same_ledger st st' \<longleftrightarrow>
     userHistory st' = userHistory st \<and> latestMetrics st' = latestMetrics st
     \<and> submissionCount st' = submissionCount st"

text \<open>
  The invariant of one user's entries: the counter is the length of the history, the
  latest record is the last of the history, and it is the zero record while there is none.
\<close>

definition ledger_invariant :: "storage \<Rightarrow> address \<Rightarrow> bool" where
  "ledger_invariant st user \<longleftrightarrow>
     submissionCount st user = length (userHistory st user)
     \<and> (userHistory st user \<noteq> [] \<longrightarrow> latestMetrics st user = last (userHistory st user))
     \<and> (userHistory st user = [] \<longrightarrow> latestMetrics st user = zero_record)"

definition timestamps_positive :: "storage \<Rightarrow> address \<Rightarrow> bool" where
  "timestamps_positive st user \<longleftrightarrow> (\<forall>r \<in> set (userHistory st user). 0 < timestamp r)"

subsection \<open>Sample inputs\<close>

text \<open>
  A verifier for the examples: it rejects the empty proof, and otherwise takes handle
  number \<open>h\<close> for a ciphertext of the value \<open>h\<close>.
\<close>

definition sample_verifier :: input_verifier where
  "sample_verifier contract user h inputProof =
     (if inputProof = [] then None else Some (Ciphertext (ExternalInput h) (of_nat h)))"

definition sample_context :: call_context where
  "sample_context = \<lparr>this = 100, msg_sender = 11, block_timestamp = 1700000000\<rparr>"

definition sample_submit :: "nat \<Rightarrow> nat \<Rightarrow> nat \<Rightarrow> nat \<Rightarrow> nat \<Rightarrow> transaction" where
  "sample_submit user time e s p =
     \<lparr>tx_sender = user, tx_timestamp = time, tx_call = SubmitMetrics e s p [42]\<rparr>"

definition sample_run :: "transaction list" where
  "sample_run =
     [sample_submit 11 1700000000 2 98 7,
      sample_submit 12 1700000012 0 96 10,
      \<lparr>tx_sender = 11, tx_timestamp = 1700000024, tx_call = ReauthorizeAllRecords\<rparr>,
      sample_submit 11 1700000036 100 50 10]"

section \<open>The disclosure client\<close>

text \<open>
  \<open>userDecryptBatch\<close> of the front end (\<open>FhevmProvider\<close>). A thrown error and a rejected
  promise are an \<open>Inl\<close>; what the function asks of the wallet and of the decryption
  oracle is returned as a log beside the result. \<open>Error\<close> carries the message the code
  builds; \<open>TypeError\<close> and \<open>SyntaxError\<close> are thrown by the engine (reading a property of
  \<open>undefined\<close>, calling what is not a function, converting to a bigint what is not one).
\<close>

datatype js_error = Error string | TypeError | SyntaxError

type_synonym any = string

datatype handle_arg = HandleString string | HandleBigint int

text \<open>\<open>handle.toString()\<close>: a string is itself, a bigint is written in decimal.\<close>

definition digit_char :: "nat \<Rightarrow> char" where
  "digit_char d = ''0123456789'' ! d"

fun nat_toString :: "nat \<Rightarrow> string" where
  "nat_toString n =
     (if n < 10 then [digit_char n] else nat_toString (n div 10) @ [digit_char (n mod 10)])"

declare nat_toString.simps [simp del]

definition bigint_toString :: "int \<Rightarrow> string" where
  "bigint_toString i = (if i < 0 then CHR ''-'' # nat_toString (nat (- i)) else nat_toString (nat i))"

fun toString :: "handle_arg \<Rightarrow> string" where
  "toString (HandleString s) = s"
| "toString (HandleBigint i) = bigint_toString i"

text \<open>
  The typed data \<open>createEIP712\<close> returns. Its field \<open>types\<close> is of type \<open>any\<close>: \<open>None\<close> when
  it is \<open>undefined\<close> or \<open>null\<close>, so that reading \<open>types.UserDecryptRequestVerification\<close>
  throws, and otherwise the value read there.
\<close>

record EIP712 =
  domain :: any
  types :: "any option"
  message :: any

record decrypt_request =
  handleContractPairs :: "(string \<times> string) list"
  privateKey :: string
  publicKey :: string
  signature :: string
  contractAddresses :: "string list"
  userAddress :: string
  startTimestamp :: nat
  durationDays :: nat

text \<open>
  The oracle answers with a single bigint or with a record; the record is given by its
  own properties, from handle strings to bigints.
\<close>

datatype decrypt_result = ResultBigint int | ResultRecord "string \<Rightarrow> int option"

text \<open>
  The instance of the encryption toolkit. \<open>generateKeypair\<close> and \<open>createEIP712\<close> are
  optional methods (\<open>None\<close> when absent); a call of either returns or throws, and
  \<open>generateKeypair\<close> stands for the outcome of its one call, the pair (public key,
  private key) when it returns. \<open>userDecrypt\<close> is a promise that resolves or rejects.
\<close>

record FhevmInstance =
  generateKeypair :: "(js_error + string \<times> string) option"
  createEIP712 :: "(string \<Rightarrow> string list \<Rightarrow> nat \<Rightarrow> nat \<Rightarrow> js_error + EIP712) option"
  userDecrypt :: "decrypt_request \<Rightarrow> js_error + decrypt_result"

text \<open>
  The signer is of type \<open>any\<close>: \<open>signTypedData\<close> is \<open>None\<close> when the signer is \<open>null\<close> or has
  no such method, and otherwise a promise that resolves to the signature or rejects.
\<close>

record Signer =
  signTypedData :: "(any \<Rightarrow> any \<Rightarrow> any \<Rightarrow> js_error + string) option"

text \<open>The state the callback closes over, and the clock \<open>Date.now()\<close> in milliseconds.\<close>

record provider_state =
  fhevmInstance :: "FhevmInstance option"
  account :: "string option"

datatype interaction =
    SignatureRequest any any any
  | DecryptRequest decrypt_request

text \<open>\<open>!account\<close>: \<open>null\<close> and the empty string are falsy.\<close>

fun falsy :: "string option \<Rightarrow> bool" where
  "falsy None = True"
| "falsy (Some s) = (s = [])"

text \<open>
  \<open>result[handleStr]\<close> on the record the oracle returned: an own property gives its
  bigint; a name the record does not own but \<open>Object.prototype\<close> has gives the inherited
  function or object; any other name gives \<open>undefined\<close>.
\<close>

datatype js_value = JsUndefined | JsBigint int | JsInherited

definition object_prototype_keys :: "string list" where
  "object_prototype_keys =
     [''constructor'', ''__proto__'', ''hasOwnProperty'', ''isPrototypeOf'',
      ''propertyIsEnumerable'', ''toLocaleString'', ''toString'', ''valueOf'',
      ''__defineGetter__'', ''__defineSetter__'', ''__lookupGetter__'', ''__lookupSetter__'']"

definition js_get :: "(string \<Rightarrow> int option) \<Rightarrow> string \<Rightarrow> js_value" where
  "js_get record key =
     (case record key of
        Some v \<Rightarrow> JsBigint v
      | None \<Rightarrow> if key \<in> set object_prototype_keys then JsInherited else JsUndefined)"

text \<open>
  \<open>BigInt(value)\<close>: a bigint is returned as it is, \<open>undefined\<close> is a \<open>TypeError\<close>, and an
  inherited function or object converts to a string that is no integer, a \<open>SyntaxError\<close>.
\<close>

fun BigInt :: "js_value \<Rightarrow> js_error + int" where
  "BigInt (JsBigint i) = Inr i"
| "BigInt JsUndefined = Inl TypeError"
| "BigInt JsInherited = Inl SyntaxError"

text \<open>The loop \<open>for (const handle of handles)\<close> that collects the values in request order.\<close>

fun extract_values ::
  "(string \<Rightarrow> int option) \<Rightarrow> handle_arg list \<Rightarrow> int list \<Rightarrow> js_error + int list" where
  "extract_values result [] decryptedValues = Inr decryptedValues"
| "extract_values result (handle # rest) decryptedValues =
     (let handleStr = toString handle;
          decryptedValue = js_get result handleStr
      in if decryptedValue = JsUndefined
         then Inl (Error (''Failed to decrypt handle '' @ handleStr))
         else (case BigInt decryptedValue of
                 Inl e \<Rightarrow> Inl e
               | Inr v \<Rightarrow> extract_values result rest (decryptedValues @ [v])))"

text \<open>
  Between the last guard and \<open>signTypedData\<close> the code calls \<open>generateKeypair()\<close> and
  \<open>createEIP712(...)\<close> and reads \<open>eip712.types.UserDecryptRequestVerification\<close> with no
  \<open>try\<close> around them: a throw of any of these, or a signer without \<open>signTypedData\<close>, ends
  the call before the wallet is asked.
\<close>

definition userDecryptBatch ::
  "provider_state \<Rightarrow> nat \<Rightarrow> handle_arg list \<Rightarrow> string \<Rightarrow> Signer
     \<Rightarrow> interaction list \<times> (js_error + int list)" where
  "userDecryptBatch st now handles contractAddress signer =
     (case fhevmInstance st of
        None \<Rightarrow> ([], Inl (Error ''FHEVM instance not initialized''))
      | Some instance \<Rightarrow>
     (if falsy (account st) then ([], Inl (Error ''No account connected''))
      else if length handles = 0 then ([], Inr [])
      else if contractAddress = []
        then ([], Inl (Error (''Invalid contractAddress: '' @ contractAddress)))
      else if \<not> (take 2 contractAddress = ''0x'') \<or> length contractAddress \<noteq> 42
        then ([], Inl (Error (''Invalid contractAddress format: '' @ contractAddress)))
      else
     (case (generateKeypair instance, createEIP712 instance) of
        (Some generateKeypair', Some createEIP712') \<Rightarrow>
     (case generateKeypair' of
        Inl e \<Rightarrow> ([], Inl e)
      | Inr (publicKey', privateKey') \<Rightarrow>
     (let startTimestamp' = now div 1000;
          durationDays' = 365;
          contractAddresses' = [contractAddress]
      in case createEIP712' publicKey' contractAddresses' startTimestamp' durationDays' of
        Inl e \<Rightarrow> ([], Inl e)
      | Inr eip712 \<Rightarrow>
     (case (types eip712, signTypedData signer) of
        (Some verification, Some signTypedData') \<Rightarrow>
          (let asked = SignatureRequest (domain eip712) verification (message eip712)
           in case signTypedData' (domain eip712) verification (message eip712) of
                Inl e \<Rightarrow> ([asked], Inl e)
              | Inr signature' \<Rightarrow>
                  (let request =
                         \<lparr>handleContractPairs =
                            map (\<lambda>handle. (toString handle, contractAddress)) handles,
                          privateKey = privateKey',
                          publicKey = publicKey',
                          signature = signature',
                          contractAddresses = contractAddresses',
                          userAddress = the (account st),
                          startTimestamp = startTimestamp',
                          durationDays = durationDays'\<rparr>;
                       log = [asked, DecryptRequest request]
                   in case userDecrypt instance request of
                        Inl e \<Rightarrow> (log, Inl e)
                      | Inr (ResultBigint b) \<Rightarrow>
                          (log, Inl (Error ''Unexpected result type: bigint''))
                      | Inr (ResultRecord result) \<Rightarrow>
                          (log, extract_values result handles [])))
      | _ \<Rightarrow> ([], Inl TypeError))))
      | _ \<Rightarrow>
          ([], Inl (Error
             ''generateKeypair or createEIP712 not available on FHEVM instance'')))))"

fun is_signature_request :: "interaction \<Rightarrow> bool" where
  "is_signature_request (SignatureRequest d t m) = True"
| "is_signature_request (DecryptRequest r) = False"

definition signature_requests :: "interaction list \<Rightarrow> nat" where
  "signature_requests log = length (filter is_signature_request log)"

text \<open>The guards a call passes before it generates the key pair.\<close>

definition guards_pass :: "provider_state \<Rightarrow> string \<Rightarrow> bool" where
  "guards_pass st contractAddress =
     (case fhevmInstance st of
        None \<Rightarrow> False
      | Some instance \<Rightarrow>
          \<not> falsy (account st) \<and> contractAddress \<noteq> [] \<and> take 2 contractAddress = ''0x''
          \<and> length contractAddress = 42
          \<and> generateKeypair instance \<noteq> None \<and> createEIP712 instance \<noteq> None)"

text \<open>
  The typed data a guarded call builds, when \<open>generateKeypair()\<close> and \<open>createEIP712(...)\<close>
  both return.
\<close>

definition built_statement :: "provider_state \<Rightarrow> nat \<Rightarrow> string \<Rightarrow> EIP712 option" where
  "built_statement st now contractAddress =
     (case fhevmInstance st of
        None \<Rightarrow> None
      | Some instance \<Rightarrow>
          (case (generateKeypair instance, createEIP712 instance) of
             (Some (Inr keys), Some create) \<Rightarrow>
               (case create (fst keys) [contractAddress] (now div 1000) 365 of
                  Inl e \<Rightarrow> None
                | Inr eip712 \<Rightarrow> Some eip712)
           | _ \<Rightarrow> None))"

text \<open>
  A call reaches the signing step when it passes the guards, the key pair and the typed
  data are built without a throw, the typed data has its \<open>types\<close>, and the signer has
  \<open>signTypedData\<close>.
\<close>

definition reaches_signing :: "provider_state \<Rightarrow> nat \<Rightarrow> string \<Rightarrow> Signer \<Rightarrow> bool" where
  "reaches_signing st now contractAddress signer =
     (guards_pass st contractAddress
      \<and> (case built_statement st now contractAddress of
            None \<Rightarrow> False
          | Some eip712 \<Rightarrow> types eip712 \<noteq> None)
      \<and> signTypedData signer \<noteq> None)"

text \<open>The request \<open>userDecryptBatch\<close> sends to the oracle once it holds a signature.\<close>

definition batch_request ::
  "provider_state \<Rightarrow> nat \<Rightarrow> handle_arg list \<Rightarrow> string \<Rightarrow> string \<times> string \<Rightarrow> string
     \<Rightarrow> decrypt_request" where
  "batch_request st now handles contractAddress keys signature' =
     \<lparr>handleContractPairs = map (\<lambda>handle. (toString handle, contractAddress)) handles,
      privateKey = snd keys,
      publicKey = fst keys,
      signature = signature',
      contractAddresses = [contractAddress],
      userAddress = the (account st),
      startTimestamp = now div 1000,
      durationDays = 365\<rparr>"

definition sample_address :: string where
  "sample_address = ''0x5FbDB2315678afecb367f032d93F642f64180aa3''"

definition sample_createEIP712 ::
  "string \<Rightarrow> string list \<Rightarrow> nat \<Rightarrow> nat \<Rightarrow> js_error + EIP712" where
  "sample_createEIP712 key addresses start days =
     Inr \<lparr>domain = ''Decryption'', types = Some ''publicKey'', message = key\<rparr>"

definition sample_oracle :: "decrypt_request \<Rightarrow> js_error + decrypt_result" where
  "sample_oracle request = Inr (ResultRecord (map_of [(''0xaa'', 7), (''0xbb'', 9), (''17'', 3)]))"

definition sample_instance :: FhevmInstance where
  "sample_instance =
     \<lparr>generateKeypair = Some (Inr (''public'', ''private'')),
      createEIP712 = Some sample_createEIP712,
      userDecrypt = sample_oracle\<rparr>"

definition sample_sign :: "any \<Rightarrow> any \<Rightarrow> any \<Rightarrow> js_error + string" where
  "sample_sign d t m = Inr ''signed''"

definition sample_signer :: Signer where
  "sample_signer = \<lparr>signTypedData = Some sample_sign\<rparr>"

definition sample_provider :: provider_state where
  "sample_provider = \<lparr>fhevmInstance = Some sample_instance, account = Some ''0xuser''\<rparr>"

definition sample_disconnected :: provider_state where
  "sample_disconnected = \<lparr>fhevmInstance = Some sample_instance, account = None\<rparr>"

text \<open>A connected provider whose toolkit throws when asked for a key pair.\<close>

definition sample_throwing :: provider_state where
  "sample_throwing =
     \<lparr>fhevmInstance =
        Some \<lparr>generateKeypair = Some (Inl (Error ''keypair generation failed'')),
              createEIP712 = Some sample_createEIP712,
              userDecrypt = sample_oracle\<rparr>,
      account = Some ''0xuser''\<rparr>"

section \<open>The classifier: score, tier and width\<close>

lemma plaintext_FHE [simp]:
  "plaintext (FHE_asEuint16 v) = v"
  "plaintext (FHE_asEuint8 w) = w"
  "plaintext (FHE_mul a b) = plaintext a * plaintext b"
  "plaintext (FHE_add a b) = plaintext a + plaintext b"
  "plaintext (FHE_asEuint32 a) = ucast (plaintext a)"
  "plaintext (FHE_ge a b) = (plaintext b \<le> plaintext a)"
  "plaintext (FHE_select c x y) = (if plaintext c then plaintext x else plaintext y)"
  by (simp_all add: FHE_asEuint16_def FHE_asEuint8_def FHE_mul_def FHE_add_def
      FHE_asEuint32_def FHE_ge_def FHE_select_def)

lemma score_plaintext:
  "plaintext (fst (calculateRiskScore e s p)) =
     ucast (plaintext e * 12 + plaintext s * 10 + plaintext p * 15)"
  by (simp add: calculateRiskScore_def Let_def)

lemma tier_plaintext:
  "plaintext (snd (calculateRiskScore e s p)) =
     (if MODERATE_THRESHOLD \<le> plaintext e * 12 + plaintext s * 10 + plaintext p * 15
      then (if HIGH_RISK_THRESHOLD \<le> plaintext e * 12 + plaintext s * 10 + plaintext p * 15
            then 2 else 1)
      else 0)"
  by (simp add: calculateRiskScore_def Let_def)

lemma unat_mul_const:
  fixes a k :: "16 word"
  assumes "unat a \<le> 100" "unat k \<le> 15"
  shows "unat (a * k) = unat a * unat k"
proof -
  have "unat a * unat k \<le> 100 * 15" using assms by (rule mult_le_mono)
  then have "unat a * unat k < 2 ^ LENGTH(16)" by simp
  then show ?thesis by (simp only: unat_mult_lem)
qed

lemma unat_add_small:
  fixes x y :: "16 word"
  assumes "unat x + unat y \<le> 3700"
  shows "unat (x + y) = unat x + unat y"
proof -
  have "unat x + unat y < 2 ^ LENGTH(16)" using assms by simp
  then show ?thesis by (simp only: unat_add_lem)
qed

lemma unat_products:
  fixes a b c :: "16 word"
  assumes "unat a \<le> 100" "unat b \<le> 100" "unat c \<le> 100"
  shows "unat (a * 12) = unat a * 12" "unat (b * 10) = unat b * 10"
    "unat (c * 15) = unat c * 15"
  using assms by (simp_all add: unat_mul_const)

lemma unat_first_sum:
  fixes a b :: "16 word"
  assumes "unat a \<le> 100" "unat b \<le> 100"
  shows "unat (a * 12 + b * 10) = unat a * 12 + unat b * 10"
  using assms unat_products(1) [of a a a] unat_products(2) [of b b b]
  by (simp add: unat_add_small)

lemma unat_total:
  fixes a b c :: "16 word"
  assumes "unat a \<le> 100" "unat b \<le> 100" "unat c \<le> 100"
  shows "unat (a * 12 + b * 10 + c * 15) = 12 * unat a + 10 * unat b + 15 * unat c"
proof -
  have "unat (a * 12 + b * 10 + c * 15) = unat (a * 12 + b * 10) + unat (c * 15)"
    using assms unat_first_sum [of a b] unat_products(3) [of c c c]
    by (simp add: unat_add_small)
  then show ?thesis
    using assms unat_first_sum [of a b] unat_products(3) [of c c c] by simp
qed

lemma unat_widen: "unat (ucast (w :: 16 word) :: 32 word) = unat w"
proof -
  have "unat w < 2 ^ LENGTH(16)" by (rule unsigned_less)
  then have "unat w < 2 ^ 32" by simp
  then have "take_bit 32 (unat w) = unat w" by (simp only: take_bit_nat_eq_self)
  moreover have "unat (ucast w :: 32 word) = take_bit LENGTH(32) (unat w)"
    by (rule unsigned_ucast_eq)
  ultimately show ?thesis by simp
qed

lemma thresholds:
  fixes t :: "16 word"
  shows "(MODERATE_THRESHOLD \<le> t) = (1110 \<le> unat t)"
    and "(HIGH_RISK_THRESHOLD \<le> t) = (1850 \<le> unat t)"
  by (simp_all add: word_le_nat_alt MODERATE_THRESHOLD_def HIGH_RISK_THRESHOLD_def)

lemma score_exact:
  assumes "unat (plaintext e) \<le> 100" "unat (plaintext s) \<le> 100" "unat (plaintext p) \<le> 100"
  shows "unat (plaintext (fst (calculateRiskScore e s p))) =
           12 * unat (plaintext e) + 10 * unat (plaintext s) + 15 * unat (plaintext p)"
  using assms by (simp only: score_plaintext unat_widen unat_total)

lemma tier_exact:
  assumes "unat (plaintext e) \<le> 100" "unat (plaintext s) \<le> 100" "unat (plaintext p) \<le> 100"
  shows "unat (plaintext (snd (calculateRiskScore e s p))) =
           spec_tier (12 * unat (plaintext e) + 10 * unat (plaintext s) + 15 * unat (plaintext p))"
proof -
  have "unat (plaintext (snd (calculateRiskScore e s p))) =
          spec_tier (unat (plaintext e * 12 + plaintext s * 10 + plaintext p * 15))"
    unfolding tier_plaintext thresholds spec_tier_def by simp
  then show ?thesis using assms by (simp only: unat_total)
qed

text \<open>
  Claim C7. For inputs in \<open>[0,100]\<close> no step of the classifier wraps at 16 bits: each
  weighted product and each running sum is the exact product or sum and stays at or
  below 3700, the score is the 32-bit cast of the second running sum, and its plaintext
  is the exact weighted sum.
\<close>

theorem classifier_no_wraparound:
  assumes "unat (plaintext emotional) \<le> 100"
      and "unat (plaintext social) \<le> 100"
      and "unat (plaintext sleep) \<le> 100"
  shows "(let emotionalWeighted = FHE_mul emotional (FHE_asEuint16 12);
              socialWeighted = FHE_mul social (FHE_asEuint16 10);
              sleepWeighted = FHE_mul sleep (FHE_asEuint16 15);
              firstSum = FHE_add emotionalWeighted socialWeighted;
              totalWeighted = FHE_add firstSum sleepWeighted
          in unat (plaintext emotionalWeighted) = unat (plaintext emotional) * 12
           \<and> unat (plaintext socialWeighted) = unat (plaintext social) * 10
           \<and> unat (plaintext sleepWeighted) = unat (plaintext sleep) * 15
           \<and> unat (plaintext firstSum)
               = unat (plaintext emotional) * 12 + unat (plaintext social) * 10
           \<and> unat (plaintext totalWeighted)
               = unat (plaintext emotional) * 12 + unat (plaintext social) * 10
                 + unat (plaintext sleep) * 15
           \<and> unat (plaintext emotionalWeighted) \<le> 3700
           \<and> unat (plaintext socialWeighted) \<le> 3700
           \<and> unat (plaintext sleepWeighted) \<le> 3700
           \<and> unat (plaintext firstSum) \<le> 3700
           \<and> unat (plaintext totalWeighted) \<le> 3700
           \<and> fst (calculateRiskScore emotional social sleep) = FHE_asEuint32 totalWeighted
           \<and> unat (plaintext (fst (calculateRiskScore emotional social sleep)))
               = unat (plaintext emotional) * 12 + unat (plaintext social) * 10
                 + unat (plaintext sleep) * 15)"
proof -
  let ?e = "plaintext emotional" and ?s = "plaintext social" and ?p = "plaintext sleep"
  have prods: "unat (?e * 12) = unat ?e * 12" "unat (?s * 10) = unat ?s * 10"
      "unat (?p * 15) = unat ?p * 15"
    using assms by (rule unat_products)+
  have sum1: "unat (?e * 12 + ?s * 10) = unat ?e * 12 + unat ?s * 10"
    using assms(1,2) by (rule unat_first_sum)
  have sum2: "unat (?e * 12 + ?s * 10 + ?p * 15) = unat ?e * 12 + unat ?s * 10 + unat ?p * 15"
    using unat_total [OF assms] by simp
  have score: "fst (calculateRiskScore emotional social sleep) =
      FHE_asEuint32 (FHE_add (FHE_add (FHE_mul emotional (FHE_asEuint16 12))
        (FHE_mul social (FHE_asEuint16 10))) (FHE_mul sleep (FHE_asEuint16 15)))"
    by (simp add: calculateRiskScore_def Let_def)
  have exact: "unat (plaintext (fst (calculateRiskScore emotional social sleep))) =
      unat ?e * 12 + unat ?s * 10 + unat ?p * 15"
    using score_exact [OF assms] by simp
  show ?thesis
    unfolding Let_def plaintext_FHE prods sum1 sum2
    using assms score exact by simp
qed

theorem classifier_no_wraparound_witness:
  "unat (plaintext (Ciphertext (ExternalInput 1) (100 :: 16 word))) \<le> 100
   \<and> unat (plaintext (FHE_add (FHE_add
          (FHE_mul (Ciphertext (ExternalInput 1) 100) (FHE_asEuint16 12))
          (FHE_mul (Ciphertext (ExternalInput 2) 100) (FHE_asEuint16 10)))
          (FHE_mul (Ciphertext (ExternalInput 3) 100) (FHE_asEuint16 15)))) = 3700
   \<and> unat (plaintext (fst (calculateRiskScore (Ciphertext (ExternalInput 1) 100)
          (Ciphertext (ExternalInput 2) 100) (Ciphertext (ExternalInput 3) 100)))) = 3700"
proof -
  have b: "unat (plaintext (Ciphertext (ExternalInput 1) (100 :: 16 word))) \<le> 100"
      "unat (plaintext (Ciphertext (ExternalInput 2) (100 :: 16 word))) \<le> 100"
      "unat (plaintext (Ciphertext (ExternalInput 3) (100 :: 16 word))) \<le> 100"
    by simp_all
  from classifier_no_wraparound [OF b] b(1) show ?thesis
    by (simp add: Let_def)
qed

text \<open>
  Claim C9. Whatever the three ciphertexts hide, also values beyond 100 for which the
  16-bit sum wraps, the tier the classifier produces hides 0, 1 or 2.
\<close>

theorem tier_is_0_1_or_2:
  "plaintext (snd (calculateRiskScore emotional social sleep)) = 0
   \<or> plaintext (snd (calculateRiskScore emotional social sleep)) = 1
   \<or> plaintext (snd (calculateRiskScore emotional social sleep)) = 2"
  unfolding tier_plaintext by simp

theorem tier_is_0_1_or_2_witness:
  "plaintext (snd (calculateRiskScore (Ciphertext (ExternalInput 1) 65535)
      (Ciphertext (ExternalInput 2) 65535) (Ciphertext (ExternalInput 3) 65535))) \<in> {0, 1, 2}"
  using tier_is_0_1_or_2 [of "Ciphertext (ExternalInput 1) 65535"
      "Ciphertext (ExternalInput 2) 65535" "Ciphertext (ExternalInput 3) 65535"]
  by blast

section \<open>The ledger under transactions\<close>

lemma FHE_allow_frame [simp]:
  "userHistory (FHE_allow c a st) = userHistory st"
  "latestMetrics (FHE_allow c a st) = latestMetrics st"
  "submissionCount (FHE_allow c a st) = submissionCount st"
  "acl (FHE_allow c a st) = insert (handle_of c, a) (acl st)"
  by (simp_all add: FHE_allow_def)

lemma allow_record_frame [simp]:
  "userHistory (allow_record ctx r st) = userHistory st"
  "latestMetrics (allow_record ctx r st) = latestMetrics st"
  "submissionCount (allow_record ctx r st) = submissionCount st"
  by (simp_all add: allow_record_def Let_def)

lemma allow_record_acl:
  "acl (allow_record ctx r st) = acl st \<union> record_handles r \<times> {msg_sender ctx, this ctx}"
  by (auto simp add: allow_record_def Let_def record_handles_def)

lemma submit_grants_frame [simp]:
  "userHistory (submit_grants ctx e s p r c st) = userHistory st"
  "latestMetrics (submit_grants ctx e s p r c st) = latestMetrics st"
  "submissionCount (submit_grants ctx e s p r c st) = submissionCount st"
  by (simp_all add: submit_grants_def FHE_allowThis_def Let_def)

lemma submit_grants_acl:
  "acl (submit_grants ctx e s p r c st) =
     acl st \<union> {handle_of e, handle_of s, handle_of p, handle_of r, handle_of c}
               \<times> {msg_sender ctx, this ctx}"
  by (auto simp add: submit_grants_def FHE_allowThis_def Let_def)

lemma submit_grants_eq:
  "submit_grants ctx e s p r c st =
     st\<lparr>acl := acl st \<union> {handle_of e, handle_of s, handle_of p, handle_of r, handle_of c}
               \<times> {msg_sender ctx, this ctx}\<rparr>"
  by (rule storage.equality) (simp_all add: submit_grants_acl)

lemma submitMetrics_verified:
  assumes "verifier (this ctx) (msg_sender ctx) he inputProof = Some emotional"
      and "verifier (this ctx) (msg_sender ctx) hs inputProof = Some social"
      and "verifier (this ctx) (msg_sender ctx) hp inputProof = Some sleep"
  shows "submitMetrics verifier ctx he hs hp inputProof st =
     (if submissionCount st (msg_sender ctx) = max_uint256 then Inl (Panic 17)
      else Inr (committed ctx (new_record ctx emotional social sleep) st,
             [MetricsSubmitted (msg_sender ctx) (block_timestamp ctx)
                (length (userHistory st (msg_sender ctx))),
              CautionWindowUpdated (msg_sender ctx) (block_timestamp ctx)]))"
  using assms
  by (simp add: submitMetrics_def FHE_fromExternal_def Let_def submit_grants_eq
        committed_def new_record_def record_handles_def split: prod.splits)

lemma submitMetrics_rejected:
  assumes "verifier (this ctx) (msg_sender ctx) he inputProof = None
         \<or> verifier (this ctx) (msg_sender ctx) hs inputProof = None
         \<or> verifier (this ctx) (msg_sender ctx) hp inputProof = None"
  shows "submitMetrics verifier ctx he hs hp inputProof st = Inl InvalidInputProof"
  using assms
  by (auto simp add: submitMetrics_def FHE_fromExternal_def split: option.splits)

lemma submitMetrics_Inr:
  assumes ok: "submitMetrics verifier ctx he hs hp inputProof st = Inr (st', evs)"
  shows "\<exists>emotional social sleep.
       verifier (this ctx) (msg_sender ctx) he inputProof = Some emotional
     \<and> verifier (this ctx) (msg_sender ctx) hs inputProof = Some social
     \<and> verifier (this ctx) (msg_sender ctx) hp inputProof = Some sleep
     \<and> submissionCount st (msg_sender ctx) \<noteq> max_uint256
     \<and> st' = committed ctx (new_record ctx emotional social sleep) st
     \<and> evs = [MetricsSubmitted (msg_sender ctx) (block_timestamp ctx)
                  (length (userHistory st (msg_sender ctx))),
               CautionWindowUpdated (msg_sender ctx) (block_timestamp ctx)]"
proof -
  from ok submitMetrics_rejected [of verifier ctx he inputProof hs hp st]
  obtain emotional social sleep where
    v: "verifier (this ctx) (msg_sender ctx) he inputProof = Some emotional"
       "verifier (this ctx) (msg_sender ctx) hs inputProof = Some social"
       "verifier (this ctx) (msg_sender ctx) hp inputProof = Some sleep"
    by (cases "verifier (this ctx) (msg_sender ctx) he inputProof";
        cases "verifier (this ctx) (msg_sender ctx) hs inputProof";
        cases "verifier (this ctx) (msg_sender ctx) hp inputProof") simp_all
  from ok v show ?thesis
    by (simp add: submitMetrics_verified split: if_splits)
qed

lemma reauthorize_loop_ledger: "same_ledger st (reauthorize_loop ctx i n st)"
proof (induction ctx i n st rule: reauthorize_loop.induct)
  case (1 ctx i count st)
  then show ?case
    by (subst reauthorize_loop.simps) (simp add: same_ledger_def)
qed

lemma reauthorize_loop_frame [simp]:
  "userHistory (reauthorize_loop ctx i n st) = userHistory st"
  "latestMetrics (reauthorize_loop ctx i n st) = latestMetrics st"
  "submissionCount (reauthorize_loop ctx i n st) = submissionCount st"
  using reauthorize_loop_ledger [of st ctx i n] by (simp_all add: same_ledger_def)

lemma view_only_Inr: "view_only st r = Inr (st', evs) \<Longrightarrow> st' = st \<and> evs = []"
  by (simp add: view_only_def split: sum.splits)

lemma reauthorizeRecord_ledger:
  "reauthorizeRecord ctx i st = Inr (st', evs) \<Longrightarrow> same_ledger st st' \<and> evs = []"
  by (auto simp add: reauthorizeRecord_def Let_def same_ledger_def split: if_splits)

lemma reauthorizeAllRecords_ledger:
  "reauthorizeAllRecords ctx st = Inr (st', evs) \<Longrightarrow> same_ledger st st' \<and> evs = []"
  by (auto simp add: reauthorizeAllRecords_def Let_def same_ledger_def split: if_splits)

lemma execute_not_submit:
  assumes "\<not> is_submit c" "execute verifier ctx c st = Inr (st', evs)"
  shows "same_ledger st st' \<and> evs = []"
proof (cases c)
  case (SubmitMetrics e s p q)
  with assms show ?thesis by simp
next
  case (ReauthorizeRecord i)
  with assms show ?thesis by (simp add: reauthorizeRecord_ledger)
next
  case ReauthorizeAllRecords
  with assms show ?thesis by (simp add: reauthorizeAllRecords_ledger)
qed (use assms in \<open>auto simp add: same_ledger_def dest: view_only_Inr\<close>)

lemma transact_not_submitted:
  assumes "\<not> (is_submit (tx_call t)
              \<and> isl (execute verifier (tx_context contract t) (tx_call t) st) = False)"
  shows "same_ledger st (fst (transact verifier contract t st))"
proof (cases "execute verifier (tx_context contract t) (tx_call t) st")
  case (Inl e)
  then show ?thesis by (simp add: transact_def same_ledger_def)
next
  case (Inr r)
  obtain st' evs where r: "r = (st', evs)" by (cases r)
  with Inr assms have "\<not> is_submit (tx_call t)" by simp
  from execute_not_submit [OF this Inr [unfolded r]] Inr r
  show ?thesis by (simp add: transact_def)
qed

lemma transact_submitted:
  assumes "is_submit (tx_call t)"
      and "isl (execute verifier (tx_context contract t) (tx_call t) st) = False"
  shows "\<exists>emotional social sleep.
           fst (transact verifier contract t st) =
             committed (tx_context contract t)
               (new_record (tx_context contract t) emotional social sleep) st"
proof -
  from assms(1) obtain e s p q where c: "tx_call t = SubmitMetrics e s p q"
    by (cases "tx_call t") simp_all
  from assms(2) obtain st' evs where
    x: "execute verifier (tx_context contract t) (tx_call t) st = Inr (st', evs)"
    by (cases "execute verifier (tx_context contract t) (tx_call t) st") auto
  then have "submitMetrics verifier (tx_context contract t) e s p q st = Inr (st', evs)"
    by (simp add: c)
  from submitMetrics_Inr [OF this] x show ?thesis
    by (auto simp add: transact_def)
qed

lemma same_ledger_invariant:
  "same_ledger st st' \<Longrightarrow> ledger_invariant st' user = ledger_invariant st user"
  by (simp add: same_ledger_def ledger_invariant_def)

lemma same_ledger_timestamps:
  "same_ledger st st' \<Longrightarrow> timestamps_positive st' user = timestamps_positive st user"
  by (simp add: same_ledger_def timestamps_positive_def)

lemma committed_ledger [simp]:
  "userHistory (committed ctx r st) =
     (userHistory st)(msg_sender ctx := userHistory st (msg_sender ctx) @ [r])"
  "latestMetrics (committed ctx r st) = (latestMetrics st)(msg_sender ctx := r)"
  "submissionCount (committed ctx r st) =
     (submissionCount st)(msg_sender ctx := submissionCount st (msg_sender ctx) + 1)"
  "acl (committed ctx r st) = acl st \<union> record_handles r \<times> {msg_sender ctx, this ctx}"
  by (simp_all add: committed_def)

lemma committed_invariant:
  "ledger_invariant st user \<Longrightarrow> ledger_invariant (committed ctx r st) user"
  by (auto simp add: ledger_invariant_def)

lemma committed_timestamps:
  "timestamps_positive st user \<Longrightarrow> 0 < timestamp r
     \<Longrightarrow> timestamps_positive (committed ctx r st) user"
  by (auto simp add: timestamps_positive_def)

lemma transact_invariant:
  assumes "ledger_invariant st user"
  shows "ledger_invariant (fst (transact verifier contract t st)) user"
proof (cases "is_submit (tx_call t)
              \<and> isl (execute verifier (tx_context contract t) (tx_call t) st) = False")
  case True
  with transact_submitted [of t verifier contract st] assms show ?thesis
    by (auto simp add: committed_invariant)
next
  case False
  from transact_not_submitted [OF this] assms show ?thesis
    by (simp add: same_ledger_invariant)
qed

lemma run_invariant:
  "ledger_invariant st user \<Longrightarrow> ledger_invariant (run verifier contract txs st) user"
  by (induction txs arbitrary: st) (simp_all add: transact_invariant)

lemma deployed_invariant: "ledger_invariant deployed user"
  by (simp add: ledger_invariant_def deployed_def)

section \<open>Sample transactions\<close>

lemma sample_verifier_accepts:
  "sample_verifier contract user h [42] = Some (Ciphertext (ExternalInput h) (of_nat h))"
  by (simp add: sample_verifier_def)

lemma sample_verifier_rejects: "sample_verifier contract user h [] = None"
  by (simp add: sample_verifier_def)

lemma transact_sample_submit:
  assumes "submissionCount st user \<noteq> max_uint256"
  shows "transact sample_verifier contract (sample_submit user time e s p) st =
     (committed \<lparr>this = contract, msg_sender = user, block_timestamp = time\<rparr>
        (new_record \<lparr>this = contract, msg_sender = user, block_timestamp = time\<rparr>
           (Ciphertext (ExternalInput e) (of_nat e)) (Ciphertext (ExternalInput s) (of_nat s))
           (Ciphertext (ExternalInput p) (of_nat p))) st,
      [MetricsSubmitted user time (length (userHistory st user)),
       CautionWindowUpdated user time])"
  using assms
  by (simp add: transact_def sample_submit_def tx_context_def
      submitMetrics_verified [where verifier = sample_verifier, OF sample_verifier_accepts
        sample_verifier_accepts sample_verifier_accepts])

lemma max_uint256_pos: "0 \<noteq> max_uint256" "Suc 0 \<noteq> max_uint256"
  by (simp_all add: max_uint256_def)

lemma deployed_simps [simp]:
  "userHistory deployed user = []"
  "latestMetrics deployed user = zero_record"
  "submissionCount deployed user = 0"
  "acl deployed = {}"
  by (simp_all add: deployed_def)

lemma transact_reauthorizeAll_ledger:
  "same_ledger st (fst (transact verifier contract
      \<lparr>tx_sender = user, tx_timestamp = time, tx_call = ReauthorizeAllRecords\<rparr> st))"
  by (rule transact_not_submitted) simp

lemma sample_run_ledger:
  "userHistory (run sample_verifier 100 sample_run deployed) 11 =
     [new_record \<lparr>this = 100, msg_sender = 11, block_timestamp = 1700000000\<rparr>
        (Ciphertext (ExternalInput 2) 2) (Ciphertext (ExternalInput 98) 98)
        (Ciphertext (ExternalInput 7) 7),
      new_record \<lparr>this = 100, msg_sender = 11, block_timestamp = 1700000036\<rparr>
        (Ciphertext (ExternalInput 100) 100) (Ciphertext (ExternalInput 50) 50)
        (Ciphertext (ExternalInput 10) 10)]"
  using transact_reauthorizeAll_ledger [of
      "fst (transact sample_verifier 100 (sample_submit 12 1700000012 0 96 10)
         (fst (transact sample_verifier 100 (sample_submit 11 1700000000 2 98 7) deployed)))"
      sample_verifier 100 11 1700000024]
  by (simp add: sample_run_def transact_sample_submit max_uint256_pos same_ledger_def)

section \<open>Claims on submitMetrics and the ledger\<close>

text \<open>
  Claim C1. For three ciphertexts hiding values in \<open>[0,100]\<close> the classifier gives a score
  whose plaintext is \<open>12 * emotional + 10 * social + 15 * sleep\<close> and a tier whose
  plaintext is 2 when that total is at least 1850, 1 when it is at least 1110 and below
  1850, and 0 otherwise; and a call of \<open>submitMetrics\<close> that accepts these three
  ciphertexts and returns stores exactly this score and this tier in the caller's latest
  record. At the totals 1109, 1110, 1849 and 1850 the tier is 0, 1, 1 and 2.
\<close>

theorem classifier_score_and_tier:
  assumes "unat (plaintext emotional) \<le> 100"
      and "unat (plaintext social) \<le> 100"
      and "unat (plaintext sleep) \<le> 100"
  shows "unat (plaintext (fst (calculateRiskScore emotional social sleep)))
           = spec_total (unat (plaintext emotional)) (unat (plaintext social))
               (unat (plaintext sleep))
       \<and> unat (plaintext (snd (calculateRiskScore emotional social sleep)))
           = spec_tier (spec_total (unat (plaintext emotional)) (unat (plaintext social))
               (unat (plaintext sleep)))
       \<and> (spec_total (unat (plaintext emotional)) (unat (plaintext social))
               (unat (plaintext sleep)) = 1109
           \<longrightarrow> unat (plaintext (snd (calculateRiskScore emotional social sleep))) = 0)
       \<and> (spec_total (unat (plaintext emotional)) (unat (plaintext social))
               (unat (plaintext sleep)) = 1110
           \<longrightarrow> unat (plaintext (snd (calculateRiskScore emotional social sleep))) = 1)
       \<and> (spec_total (unat (plaintext emotional)) (unat (plaintext social))
               (unat (plaintext sleep)) = 1849
           \<longrightarrow> unat (plaintext (snd (calculateRiskScore emotional social sleep))) = 1)
       \<and> (spec_total (unat (plaintext emotional)) (unat (plaintext social))
               (unat (plaintext sleep)) = 1850
           \<longrightarrow> unat (plaintext (snd (calculateRiskScore emotional social sleep))) = 2)
       \<and> (\<forall>verifier ctx he hs hp inputProof st st' events.
             verifier (this ctx) (msg_sender ctx) he inputProof = Some emotional
           \<longrightarrow> verifier (this ctx) (msg_sender ctx) hs inputProof = Some social
           \<longrightarrow> verifier (this ctx) (msg_sender ctx) hp inputProof = Some sleep
           \<longrightarrow> submitMetrics verifier ctx he hs hp inputProof st = Inr (st', events)
           \<longrightarrow> riskScore (latestMetrics st' (msg_sender ctx))
                 = fst (calculateRiskScore emotional social sleep)
               \<and> cautionWindow (latestMetrics st' (msg_sender ctx))
                 = snd (calculateRiskScore emotional social sleep))"
proof -
  let ?total = "spec_total (unat (plaintext emotional)) (unat (plaintext social))
      (unat (plaintext sleep))"
  have score: "unat (plaintext (fst (calculateRiskScore emotional social sleep))) = ?total"
    using score_exact [OF assms] by (simp add: spec_total_def)
  have tier: "unat (plaintext (snd (calculateRiskScore emotional social sleep)))
      = spec_tier ?total"
    using tier_exact [OF assms] by (simp add: spec_total_def)
  have edges: "?total = 1109
        \<longrightarrow> unat (plaintext (snd (calculateRiskScore emotional social sleep))) = 0"
      "?total = 1110
        \<longrightarrow> unat (plaintext (snd (calculateRiskScore emotional social sleep))) = 1"
      "?total = 1849
        \<longrightarrow> unat (plaintext (snd (calculateRiskScore emotional social sleep))) = 1"
      "?total = 1850
        \<longrightarrow> unat (plaintext (snd (calculateRiskScore emotional social sleep))) = 2"
    unfolding tier by (simp_all add: spec_tier_def)
  have stored: "riskScore (latestMetrics st' (msg_sender ctx))
          = fst (calculateRiskScore emotional social sleep)
        \<and> cautionWindow (latestMetrics st' (msg_sender ctx))
          = snd (calculateRiskScore emotional social sleep)"
    if v: "verifier (this ctx) (msg_sender ctx) he inputProof = Some emotional"
      "verifier (this ctx) (msg_sender ctx) hs inputProof = Some social"
      "verifier (this ctx) (msg_sender ctx) hp inputProof = Some sleep"
    and ok: "submitMetrics verifier ctx he hs hp inputProof st = Inr (st', events)"
    for verifier :: input_verifier and ctx he hs hp inputProof st st' events
  proof -
    from ok v have "st' = committed ctx (new_record ctx emotional social sleep) st"
      by (simp add: submitMetrics_verified split: if_splits)
    then show ?thesis by (simp add: new_record_def)
  qed
  from score tier edges show ?thesis
    by (intro conjI allI impI) (simp_all add: stored)
qed

theorem classifier_score_and_tier_witness:
  "unat (plaintext (snd (calculateRiskScore (Ciphertext (ExternalInput 2) 2)
      (Ciphertext (ExternalInput 98) 98) (Ciphertext (ExternalInput 7) 7)))) = 0
   \<and> unat (plaintext (snd (calculateRiskScore (Ciphertext (ExternalInput 0) 0)
      (Ciphertext (ExternalInput 96) 96) (Ciphertext (ExternalInput 10) 10)))) = 1
   \<and> unat (plaintext (snd (calculateRiskScore (Ciphertext (ExternalInput 97) 97)
      (Ciphertext (ExternalInput 67) 67) (Ciphertext (ExternalInput 1) 1)))) = 1
   \<and> unat (plaintext (snd (calculateRiskScore (Ciphertext (ExternalInput 100) 100)
      (Ciphertext (ExternalInput 50) 50) (Ciphertext (ExternalInput 10) 10)))) = 2
   \<and> unat (plaintext (riskScore (latestMetrics
        (run sample_verifier 100 [sample_submit 11 1700000000 100 50 10] deployed) 11))) = 1850
   \<and> unat (plaintext (cautionWindow (latestMetrics
        (run sample_verifier 100 [sample_submit 11 1700000000 100 50 10] deployed) 11))) = 2"
proof -
  have a: "unat (plaintext (snd (calculateRiskScore (Ciphertext (ExternalInput 2) 2)
      (Ciphertext (ExternalInput 98) 98) (Ciphertext (ExternalInput 7) 7)))) = 0"
    using classifier_score_and_tier [of "Ciphertext (ExternalInput 2) 2"
        "Ciphertext (ExternalInput 98) 98" "Ciphertext (ExternalInput 7) 7"]
    by (simp add: spec_total_def spec_tier_def)
  have b: "unat (plaintext (snd (calculateRiskScore (Ciphertext (ExternalInput 0) 0)
      (Ciphertext (ExternalInput 96) 96) (Ciphertext (ExternalInput 10) 10)))) = 1"
    using classifier_score_and_tier [of "Ciphertext (ExternalInput 0) 0"
        "Ciphertext (ExternalInput 96) 96" "Ciphertext (ExternalInput 10) 10"]
    by (simp add: spec_total_def spec_tier_def)
  have c: "unat (plaintext (snd (calculateRiskScore (Ciphertext (ExternalInput 97) 97)
      (Ciphertext (ExternalInput 67) 67) (Ciphertext (ExternalInput 1) 1)))) = 1"
    using classifier_score_and_tier [of "Ciphertext (ExternalInput 97) 97"
        "Ciphertext (ExternalInput 67) 67" "Ciphertext (ExternalInput 1) 1"]
    by (simp add: spec_total_def spec_tier_def)
  have d: "unat (plaintext (fst (calculateRiskScore (Ciphertext (ExternalInput 100) 100)
      (Ciphertext (ExternalInput 50) 50) (Ciphertext (ExternalInput 10) 10)))) = 1850
    \<and> unat (plaintext (snd (calculateRiskScore (Ciphertext (ExternalInput 100) 100)
      (Ciphertext (ExternalInput 50) 50) (Ciphertext (ExternalInput 10) 10)))) = 2"
    using classifier_score_and_tier [of "Ciphertext (ExternalInput 100) 100"
        "Ciphertext (ExternalInput 50) 50" "Ciphertext (ExternalInput 10) 10"]
    by (simp add: spec_total_def spec_tier_def)
  have e: "latestMetrics (run sample_verifier 100 [sample_submit 11 1700000000 100 50 10]
        deployed) 11 =
      new_record \<lparr>this = 100, msg_sender = 11, block_timestamp = 1700000000\<rparr>
        (Ciphertext (ExternalInput 100) 100) (Ciphertext (ExternalInput 50) 50)
        (Ciphertext (ExternalInput 10) 10)"
    by (simp add: transact_sample_submit max_uint256_pos)
  from a b c d show ?thesis
    unfolding e by (simp add: new_record_def)
qed

text \<open>
  Claim C2. A transaction calling \<open>submitMetrics\<close> either reverts, and then the storage
  is the one before it and no event is logged, or returns, and then exactly one record
  (the three accepted input handles, the score and tier handles computed from them, the
  block timestamp) is appended to the sender's history, the sender's latest record is
  that record, the sender's counter went up by one, the access-control list holds each
  of the record's five handles for the sender and for the contract, and the events are
  \<open>MetricsSubmitted\<close> with the index \<open>length - 1\<close> of the new record followed by
  \<open>CautionWindowUpdated\<close>.
\<close>

theorem submitMetrics_effects_atomic:
  assumes "tx_call t = SubmitMetrics he hs hp inputProof"
  shows "(case submitMetrics verifier (tx_context contract t) he hs hp inputProof st of
            Inl err \<Rightarrow> transact verifier contract t st = (st, [])
          | Inr (st', events) \<Rightarrow>
              transact verifier contract t st = (st', events)
            \<and> (\<exists>emotional social sleep record.
                  verifier contract (tx_sender t) he inputProof = Some emotional
                \<and> verifier contract (tx_sender t) hs inputProof = Some social
                \<and> verifier contract (tx_sender t) hp inputProof = Some sleep
                \<and> record =
                    \<lparr>emotionalFluctuation = emotional, socialFatigue = social,
                     sleepDebt = sleep,
                     riskScore = fst (calculateRiskScore emotional social sleep),
                     cautionWindow = snd (calculateRiskScore emotional social sleep),
                     timestamp = tx_timestamp t\<rparr>
                \<and> userHistory st' (tx_sender t) = userHistory st (tx_sender t) @ [record]
                \<and> latestMetrics st' (tx_sender t) = record
                \<and> submissionCount st' (tx_sender t) = submissionCount st (tx_sender t) + 1
                \<and> (\<forall>h \<in> record_handles record.
                      (h, tx_sender t) \<in> acl st' \<and> (h, contract) \<in> acl st')
                \<and> events =
                    [MetricsSubmitted (tx_sender t) (tx_timestamp t)
                       (length (userHistory st' (tx_sender t)) - 1),
                     CautionWindowUpdated (tx_sender t) (tx_timestamp t)]))"
proof (cases "submitMetrics verifier (tx_context contract t) he hs hp inputProof st")
  case (Inl err)
  with assms show ?thesis by (simp add: transact_def)
next
  case (Inr r)
  obtain st' events where r: "r = (st', events)" by (cases r)
  from submitMetrics_Inr [OF Inr [unfolded r]]
  obtain emotional social sleep where
    v: "verifier contract (tx_sender t) he inputProof = Some emotional"
       "verifier contract (tx_sender t) hs inputProof = Some social"
       "verifier contract (tx_sender t) hp inputProof = Some sleep"
    and st': "st' = committed (tx_context contract t)
                (new_record (tx_context contract t) emotional social sleep) st"
    and ev: "events = [MetricsSubmitted (tx_sender t) (tx_timestamp t)
                (length (userHistory st (tx_sender t))),
              CautionWindowUpdated (tx_sender t) (tx_timestamp t)]"
    by (auto simp add: tx_context_def)
  have tr: "transact verifier contract t st = (st', events)"
    using assms Inr r by (simp add: transact_def)
  have eff: "userHistory st' (tx_sender t) = userHistory st (tx_sender t)
        @ [new_record (tx_context contract t) emotional social sleep]"
    "latestMetrics st' (tx_sender t) = new_record (tx_context contract t) emotional social sleep"
    "submissionCount st' (tx_sender t) = submissionCount st (tx_sender t) + 1"
    "\<forall>h \<in> record_handles (new_record (tx_context contract t) emotional social sleep).
        (h, tx_sender t) \<in> acl st' \<and> (h, contract) \<in> acl st'"
    by (simp_all add: st' tx_context_def)
  have rec: "new_record (tx_context contract t) emotional social sleep =
      \<lparr>emotionalFluctuation = emotional, socialFatigue = social, sleepDebt = sleep,
       riskScore = fst (calculateRiskScore emotional social sleep),
       cautionWindow = snd (calculateRiskScore emotional social sleep),
       timestamp = tx_timestamp t\<rparr>"
    by (simp add: new_record_def tx_context_def)
  have "\<exists>emotional social sleep record.
                  verifier contract (tx_sender t) he inputProof = Some emotional
                \<and> verifier contract (tx_sender t) hs inputProof = Some social
                \<and> verifier contract (tx_sender t) hp inputProof = Some sleep
                \<and> record =
                    \<lparr>emotionalFluctuation = emotional, socialFatigue = social,
                     sleepDebt = sleep,
                     riskScore = fst (calculateRiskScore emotional social sleep),
                     cautionWindow = snd (calculateRiskScore emotional social sleep),
                     timestamp = tx_timestamp t\<rparr>
                \<and> userHistory st' (tx_sender t) = userHistory st (tx_sender t) @ [record]
                \<and> latestMetrics st' (tx_sender t) = record
                \<and> submissionCount st' (tx_sender t) = submissionCount st (tx_sender t) + 1
                \<and> (\<forall>h \<in> record_handles record.
                      (h, tx_sender t) \<in> acl st' \<and> (h, contract) \<in> acl st')
                \<and> events =
                    [MetricsSubmitted (tx_sender t) (tx_timestamp t)
                       (length (userHistory st' (tx_sender t)) - 1),
                     CautionWindowUpdated (tx_sender t) (tx_timestamp t)]"
    apply (rule exI [of _ emotional], rule exI [of _ social], rule exI [of _ sleep])
    apply (rule exI [of _ "new_record (tx_context contract t) emotional social sleep"])
    using v eff rec ev by simp
  with tr Inr r show ?thesis by simp
qed

theorem submitMetrics_effects_atomic_witness:
  "tx_call (sample_submit 11 1700000000 2 98 7) = SubmitMetrics 2 98 7 [42]
   \<and> length (userHistory (fst (transact sample_verifier 100
         (sample_submit 11 1700000000 2 98 7) deployed)) 11) = 1
   \<and> submissionCount (fst (transact sample_verifier 100
         (sample_submit 11 1700000000 2 98 7) deployed)) 11 = 1
   \<and> (ExternalInput 2, 11) \<in> acl (fst (transact sample_verifier 100
         (sample_submit 11 1700000000 2 98 7) deployed))
   \<and> (ExternalInput 2, 100) \<in> acl (fst (transact sample_verifier 100
         (sample_submit 11 1700000000 2 98 7) deployed))
   \<and> snd (transact sample_verifier 100 (sample_submit 11 1700000000 2 98 7) deployed)
       = [MetricsSubmitted 11 1700000000 0, CautionWindowUpdated 11 1700000000]"
proof -
  have c: "tx_call (sample_submit 11 1700000000 2 98 7) = SubmitMetrics 2 98 7 [42]"
    by (simp add: sample_submit_def)
  have t: "transact sample_verifier 100 (sample_submit 11 1700000000 2 98 7) deployed =
     (committed \<lparr>this = 100, msg_sender = 11, block_timestamp = 1700000000\<rparr>
        (new_record \<lparr>this = 100, msg_sender = 11, block_timestamp = 1700000000\<rparr>
           (Ciphertext (ExternalInput 2) 2) (Ciphertext (ExternalInput 98) 98)
           (Ciphertext (ExternalInput 7) 7)) deployed,
      [MetricsSubmitted 11 1700000000 0, CautionWindowUpdated 11 1700000000])"
    by (simp add: transact_sample_submit max_uint256_pos)
  from submitMetrics_effects_atomic [OF c, of sample_verifier 100 deployed] c show ?thesis
    unfolding t
    by (auto simp add: sample_submit_def sample_verifier_def tx_context_def
        record_handles_def split: sum.splits)
qed

text \<open>
  Claim C3. In the storage reached from deployment by any list of transactions, for
  every user, \<open>submissionCount\<close> is the length of \<open>userHistory\<close>, and where the history
  is not empty \<open>latestMetrics\<close> is its last element.
\<close>

theorem ledger_invariant_reachable:
  "submissionCount (run verifier contract txs deployed) user
     = length (userHistory (run verifier contract txs deployed) user)
   \<and> (userHistory (run verifier contract txs deployed) user \<noteq> []
        \<longrightarrow> latestMetrics (run verifier contract txs deployed) user
            = last (userHistory (run verifier contract txs deployed) user))"
  using run_invariant [OF deployed_invariant, where user = user and verifier = verifier
      and contract = contract and txs = txs]
  by (simp add: ledger_invariant_def)

theorem ledger_invariant_reachable_witness:
  "userHistory (run sample_verifier 100 sample_run deployed) 11 \<noteq> []
   \<and> submissionCount (run sample_verifier 100 sample_run deployed) 11 = 2
   \<and> latestMetrics (run sample_verifier 100 sample_run deployed) 11
       = last (userHistory (run sample_verifier 100 sample_run deployed) 11)"
  using ledger_invariant_reachable [of sample_verifier 100 sample_run 11]
  by (simp add: sample_run_ledger)

text \<open>
  Claim C10. A transaction, \<open>submitMetrics\<close> or any other call, whether it returns or
  reverts, leaves the history, the latest record and the counter of every user other
  than its sender as they were.
\<close>

theorem other_users_untouched:
  assumes "other \<noteq> tx_sender t"
  shows "userHistory (fst (transact verifier contract t st)) other = userHistory st other
       \<and> latestMetrics (fst (transact verifier contract t st)) other = latestMetrics st other
       \<and> submissionCount (fst (transact verifier contract t st)) other
           = submissionCount st other"
proof (cases "is_submit (tx_call t)
              \<and> isl (execute verifier (tx_context contract t) (tx_call t) st) = False")
  case True
  with transact_submitted [of t verifier contract st] assms show ?thesis
    by (auto simp add: tx_context_def)
next
  case False
  from transact_not_submitted [OF this] show ?thesis
    by (simp add: same_ledger_def)
qed

theorem other_users_untouched_witness:
  "(11 :: address) \<noteq> tx_sender (sample_submit 12 1700000012 0 96 10)
   \<and> userHistory (fst (transact sample_verifier 100 (sample_submit 12 1700000012 0 96 10)
        (fst (transact sample_verifier 100 (sample_submit 11 1700000000 2 98 7) deployed)))) 11
     = userHistory (fst (transact sample_verifier 100 (sample_submit 11 1700000000 2 98 7)
        deployed)) 11
   \<and> submissionCount (fst (transact sample_verifier 100 (sample_submit 12 1700000012 0 96 10)
        (fst (transact sample_verifier 100 (sample_submit 11 1700000000 2 98 7) deployed)))) 11
     = 1"
proof -
  have n: "(11 :: address) \<noteq> tx_sender (sample_submit 12 1700000012 0 96 10)"
    by (simp add: sample_submit_def)
  from other_users_untouched [OF n, of sample_verifier 100
      "fst (transact sample_verifier 100 (sample_submit 11 1700000000 2 98 7) deployed)"] n
  show ?thesis
    by (simp add: transact_sample_submit max_uint256_pos)
qed

section \<open>Claims on the read accessors\<close>

lemma sample_context_simps [simp]:
  "msg_sender sample_context = 11" "this sample_context = 100"
  "block_timestamp sample_context = 1700000000"
  by (simp_all add: sample_context_def)

lemma run_history_length:
  "length (userHistory (run verifier contract txs st) user) =
     length (userHistory st user) + successful_submits verifier contract user txs st"
proof (induction txs arbitrary: st)
  case Nil
  show ?case by simp
next
  case (Cons t txs)
  have step: "length (userHistory (fst (transact verifier contract t st)) user) =
      length (userHistory st user)
      + (if tx_sender t = user \<and> is_submit (tx_call t)
            \<and> isl (execute verifier (tx_context contract t) (tx_call t) st) = False
         then 1 else 0)"
  proof (cases "is_submit (tx_call t)
              \<and> isl (execute verifier (tx_context contract t) (tx_call t) st) = False")
    case True
    with transact_submitted [of t verifier contract st] show ?thesis
      by (auto simp add: tx_context_def)
  next
    case False
    from transact_not_submitted [OF this] False show ?thesis
      by (auto simp add: same_ledger_def)
  qed
  show ?case
    using Cons.IH [of "fst (transact verifier contract t st)"] step by simp
qed

lemma transact_timestamps:
  assumes "timestamps_positive st user" "0 < tx_timestamp t"
  shows "timestamps_positive (fst (transact verifier contract t st)) user"
proof (cases "is_submit (tx_call t)
              \<and> isl (execute verifier (tx_context contract t) (tx_call t) st) = False")
  case True
  with transact_submitted [of t verifier contract st] assms show ?thesis
    by (auto simp add: committed_timestamps new_record_def tx_context_def)
next
  case False
  from transact_not_submitted [OF this] assms show ?thesis
    by (simp add: same_ledger_timestamps)
qed

lemma run_timestamps:
  "timestamps_positive st user \<Longrightarrow> \<forall>t \<in> set txs. 0 < tx_timestamp t
     \<Longrightarrow> timestamps_positive (run verifier contract txs st) user"
  by (induction txs arbitrary: st) (simp_all add: transact_timestamps)

lemma deployed_timestamps: "timestamps_positive deployed user"
  by (simp add: timestamps_positive_def)

lemma latest_when_empty:
  "ledger_invariant st user \<Longrightarrow> userHistory st user = []
     \<Longrightarrow> timestamp (latestMetrics st user) = 0"
  by (simp add: ledger_invariant_def zero_record_def)

lemma latest_when_nonempty:
  "ledger_invariant st user \<Longrightarrow> timestamps_positive st user \<Longrightarrow> userHistory st user \<noteq> []
     \<Longrightarrow> 0 < timestamp (latestMetrics st user)
       \<and> latestMetrics st user = last (userHistory st user)"
  by (simp add: ledger_invariant_def timestamps_positive_def)

lemma sample_run_stranger:
  "userHistory (run sample_verifier 100 sample_run deployed) 13 = []"
  using transact_reauthorizeAll_ledger [of
      "fst (transact sample_verifier 100 (sample_submit 12 1700000012 0 96 10)
         (fst (transact sample_verifier 100 (sample_submit 11 1700000000 2 98 7) deployed)))"
      sample_verifier 100 11 1700000024]
  by (simp add: sample_run_def transact_sample_submit max_uint256_pos same_ledger_def)

lemma sample_run_submits:
  "successful_submits sample_verifier 100 13 sample_run deployed = 0"
  "successful_submits sample_verifier 100 11 sample_run deployed = 2"
  using run_history_length [of sample_verifier 100 sample_run deployed 13]
    run_history_length [of sample_verifier 100 sample_run deployed 11]
  by (simp_all add: sample_run_stranger sample_run_ledger)

lemma sample_run_timestamps:
  "map tx_timestamp sample_run = [1700000000, 1700000012, 1700000024, 1700000036]"
  by (simp add: sample_run_def sample_submit_def)

text \<open>
  Claim C4. For any storage, also one where the caller's history is empty,
  \<open>getMetricsAtIndex\<close> reverts with "Index out of bounds" exactly when the index is at
  least the length of the caller's history, and below the length it returns the six
  fields of the record at that position. Positions follow the order of submission: a
  submission that returns leaves the records at the earlier indices as they were and puts
  its own record at the index equal to the old length.
\<close>

theorem getMetricsAtIndex_bounds:
  "(getMetricsAtIndex ctx index st = Inl IndexOutOfBounds
      \<longleftrightarrow> length (userHistory st (msg_sender ctx)) \<le> index)
   \<and> (index < length (userHistory st (msg_sender ctx)) \<longrightarrow>
        getMetricsAtIndex ctx index st =
          Inr (emotionalFluctuation (userHistory st (msg_sender ctx) ! index),
               socialFatigue (userHistory st (msg_sender ctx) ! index),
               sleepDebt (userHistory st (msg_sender ctx) ! index),
               riskScore (userHistory st (msg_sender ctx) ! index),
               cautionWindow (userHistory st (msg_sender ctx) ! index),
               timestamp (userHistory st (msg_sender ctx) ! index)))
   \<and> (\<forall>verifier he hs hp inputProof st' events ctx'.
         submitMetrics verifier ctx he hs hp inputProof st = Inr (st', events)
         \<longrightarrow> msg_sender ctx' = msg_sender ctx
         \<longrightarrow> (\<forall>i < length (userHistory st (msg_sender ctx)).
                getMetricsAtIndex ctx' i st' = getMetricsAtIndex ctx' i st)
           \<and> getMetricsAtIndex ctx' (length (userHistory st (msg_sender ctx))) st'
               = Inr (emotionalFluctuation (latestMetrics st' (msg_sender ctx)),
                      socialFatigue (latestMetrics st' (msg_sender ctx)),
                      sleepDebt (latestMetrics st' (msg_sender ctx)),
                      riskScore (latestMetrics st' (msg_sender ctx)),
                      cautionWindow (latestMetrics st' (msg_sender ctx)),
                      block_timestamp ctx))"
proof (intro conjI allI impI)
  show "getMetricsAtIndex ctx index st = Inl IndexOutOfBounds
      \<longleftrightarrow> length (userHistory st (msg_sender ctx)) \<le> index"
    by (auto simp add: getMetricsAtIndex_def Let_def)
next
  assume "index < length (userHistory st (msg_sender ctx))"
  then show "getMetricsAtIndex ctx index st =
          Inr (emotionalFluctuation (userHistory st (msg_sender ctx) ! index),
               socialFatigue (userHistory st (msg_sender ctx) ! index),
               sleepDebt (userHistory st (msg_sender ctx) ! index),
               riskScore (userHistory st (msg_sender ctx) ! index),
               cautionWindow (userHistory st (msg_sender ctx) ! index),
               timestamp (userHistory st (msg_sender ctx) ! index))"
    by (simp add: getMetricsAtIndex_def Let_def)
next
  fix verifier :: input_verifier and he hs hp inputProof st' events
    and ctx' :: call_context and i
  assume ok: "submitMetrics verifier ctx he hs hp inputProof st = Inr (st', events)"
    and s: "msg_sender ctx' = msg_sender ctx"
    and i: "i < length (userHistory st (msg_sender ctx))"
  from submitMetrics_Inr [OF ok] obtain r where "st' = committed ctx r st" by blast
  with s i show "getMetricsAtIndex ctx' i st' = getMetricsAtIndex ctx' i st"
    by (simp add: getMetricsAtIndex_def Let_def nth_append)
next
  fix verifier :: input_verifier and he hs hp inputProof st' events
    and ctx' :: call_context
  assume ok: "submitMetrics verifier ctx he hs hp inputProof st = Inr (st', events)"
    and s: "msg_sender ctx' = msg_sender ctx"
  from submitMetrics_Inr [OF ok] obtain e so sl where
    "st' = committed ctx (new_record ctx e so sl) st" by blast
  with s show "getMetricsAtIndex ctx' (length (userHistory st (msg_sender ctx))) st'
               = Inr (emotionalFluctuation (latestMetrics st' (msg_sender ctx)),
                      socialFatigue (latestMetrics st' (msg_sender ctx)),
                      sleepDebt (latestMetrics st' (msg_sender ctx)),
                      riskScore (latestMetrics st' (msg_sender ctx)),
                      cautionWindow (latestMetrics st' (msg_sender ctx)),
                      block_timestamp ctx)"
    by (simp add: getMetricsAtIndex_def Let_def new_record_def)
qed

theorem getMetricsAtIndex_bounds_witness:
  "getMetricsAtIndex sample_context 0 deployed = Inl IndexOutOfBounds
   \<and> getMetricsAtIndex sample_context 2 (run sample_verifier 100 sample_run deployed)
       = Inl IndexOutOfBounds
   \<and> (1 :: nat) < length (userHistory (run sample_verifier 100 sample_run deployed)
         (msg_sender sample_context))
   \<and> getMetricsAtIndex sample_context 1 (run sample_verifier 100 sample_run deployed)
       = Inr (Ciphertext (ExternalInput 100) 100, Ciphertext (ExternalInput 50) 50,
              Ciphertext (ExternalInput 10) 10,
              fst (calculateRiskScore (Ciphertext (ExternalInput 100) 100)
                (Ciphertext (ExternalInput 50) 50) (Ciphertext (ExternalInput 10) 10)),
              snd (calculateRiskScore (Ciphertext (ExternalInput 100) 100)
                (Ciphertext (ExternalInput 50) 50) (Ciphertext (ExternalInput 10) 10)),
              1700000036)
   \<and> getMetricsAtIndex sample_context 0
         (committed sample_context
            (new_record sample_context (Ciphertext (ExternalInput 2) 2)
               (Ciphertext (ExternalInput 98) 98) (Ciphertext (ExternalInput 7) 7)) deployed)
       = Inr (Ciphertext (ExternalInput 2) 2, Ciphertext (ExternalInput 98) 98,
              Ciphertext (ExternalInput 7) 7,
              fst (calculateRiskScore (Ciphertext (ExternalInput 2) 2)
                (Ciphertext (ExternalInput 98) 98) (Ciphertext (ExternalInput 7) 7)),
              snd (calculateRiskScore (Ciphertext (ExternalInput 2) 2)
                (Ciphertext (ExternalInput 98) 98) (Ciphertext (ExternalInput 7) 7)),
              1700000000)"
proof -
  let ?st = "run sample_verifier 100 sample_run deployed"
  have a: "getMetricsAtIndex sample_context 0 deployed = Inl IndexOutOfBounds"
    using getMetricsAtIndex_bounds [of sample_context 0 deployed] by simp
  have b: "getMetricsAtIndex sample_context 2 ?st = Inl IndexOutOfBounds"
    using getMetricsAtIndex_bounds [of sample_context 2 ?st]
    by (simp add: sample_run_ledger)
  have l: "(1 :: nat) < length (userHistory ?st (msg_sender sample_context))"
    by (simp add: sample_run_ledger)
  have c: "getMetricsAtIndex sample_context 1 ?st
       = Inr (Ciphertext (ExternalInput 100) 100, Ciphertext (ExternalInput 50) 50,
              Ciphertext (ExternalInput 10) 10,
              fst (calculateRiskScore (Ciphertext (ExternalInput 100) 100)
                (Ciphertext (ExternalInput 50) 50) (Ciphertext (ExternalInput 10) 10)),
              snd (calculateRiskScore (Ciphertext (ExternalInput 100) 100)
                (Ciphertext (ExternalInput 50) 50) (Ciphertext (ExternalInput 10) 10)),
              1700000036)"
    using getMetricsAtIndex_bounds [of sample_context 1 ?st] l
    by (simp add: sample_run_ledger new_record_def)
  have ok: "submitMetrics sample_verifier sample_context 2 98 7 [42] deployed =
      Inr (committed sample_context
            (new_record sample_context (Ciphertext (ExternalInput 2) 2)
               (Ciphertext (ExternalInput 98) 98) (Ciphertext (ExternalInput 7) 7)) deployed,
           [MetricsSubmitted 11 1700000000 0, CautionWindowUpdated 11 1700000000])"
    by (simp add: max_uint256_pos
        submitMetrics_verified [where verifier = sample_verifier, OF sample_verifier_accepts
          sample_verifier_accepts sample_verifier_accepts])
  have d: "getMetricsAtIndex sample_context 0
         (committed sample_context
            (new_record sample_context (Ciphertext (ExternalInput 2) 2)
               (Ciphertext (ExternalInput 98) 98) (Ciphertext (ExternalInput 7) 7)) deployed)
       = Inr (Ciphertext (ExternalInput 2) 2, Ciphertext (ExternalInput 98) 98,
              Ciphertext (ExternalInput 7) 7,
              fst (calculateRiskScore (Ciphertext (ExternalInput 2) 2)
                (Ciphertext (ExternalInput 98) 98) (Ciphertext (ExternalInput 7) 7)),
              snd (calculateRiskScore (Ciphertext (ExternalInput 2) 2)
                (Ciphertext (ExternalInput 98) 98) (Ciphertext (ExternalInput 7) 7)),
              1700000000)"
    using getMetricsAtIndex_bounds [of sample_context 0 deployed, THEN conjunct2,
        THEN conjunct2, rule_format, OF ok, of sample_context]
    by (simp add: new_record_def)
  from a b l c d show ?thesis by simp
qed

text \<open>
  Claim C5. Along any list of transactions from deployment, a user with no returned
  call of \<open>submitMetrics\<close> gets "No metrics submitted yet" from \<open>getLatestMetrics\<close>,
  \<open>getRiskScore\<close> and \<open>getCautionWindow\<close>, and a user with at least one gets from each of
  them the fields of the last record of the history. The accessors recognise a
  submission by a non-zero timestamp of the latest record, so the blocks of the
  transactions carry the positive timestamps that every block after genesis has.
\<close>

theorem latest_accessors_NoSubmission:
  assumes "\<forall>t \<in> set txs. 0 < tx_timestamp t"
      and "msg_sender ctx = user"
  shows "(successful_submits verifier contract user txs deployed = 0 \<longrightarrow>
            getLatestMetrics ctx (run verifier contract txs deployed) = Inl NoSubmission
          \<and> getRiskScore ctx (run verifier contract txs deployed) = Inl NoSubmission
          \<and> getCautionWindow ctx (run verifier contract txs deployed) = Inl NoSubmission)
       \<and> (0 < successful_submits verifier contract user txs deployed \<longrightarrow>
            getLatestMetrics ctx (run verifier contract txs deployed)
              = Inr (emotionalFluctuation (last (userHistory (run verifier contract txs deployed) user)),
                     socialFatigue (last (userHistory (run verifier contract txs deployed) user)),
                     sleepDebt (last (userHistory (run verifier contract txs deployed) user)),
                     timestamp (last (userHistory (run verifier contract txs deployed) user)))
          \<and> getRiskScore ctx (run verifier contract txs deployed)
              = Inr (riskScore (last (userHistory (run verifier contract txs deployed) user)))
          \<and> getCautionWindow ctx (run verifier contract txs deployed)
              = Inr (cautionWindow (last (userHistory (run verifier contract txs deployed) user))))"
proof -
  let ?st = "run verifier contract txs deployed"
  have inv: "ledger_invariant ?st user"
    by (rule run_invariant [OF deployed_invariant])
  have pos: "timestamps_positive ?st user"
    by (rule run_timestamps [OF deployed_timestamps assms(1)])
  have len: "length (userHistory ?st user) = successful_submits verifier contract user txs deployed"
    using run_history_length [of verifier contract txs deployed user] by simp
  show ?thesis
  proof (intro conjI impI)
    assume "successful_submits verifier contract user txs deployed = 0"
    with len have "userHistory ?st user = []" by simp
    from latest_when_empty [OF inv this] assms(2)
    show "getLatestMetrics ctx ?st = Inl NoSubmission"
      "getRiskScore ctx ?st = Inl NoSubmission"
      "getCautionWindow ctx ?st = Inl NoSubmission"
      by (simp_all add: getLatestMetrics_def getRiskScore_def getCautionWindow_def)
  next
    assume "0 < successful_submits verifier contract user txs deployed"
    with len have "userHistory ?st user \<noteq> []" by auto
    from latest_when_nonempty [OF inv pos this] assms(2)
    show "getLatestMetrics ctx ?st
              = Inr (emotionalFluctuation (last (userHistory ?st user)),
                     socialFatigue (last (userHistory ?st user)),
                     sleepDebt (last (userHistory ?st user)),
                     timestamp (last (userHistory ?st user)))"
      "getRiskScore ctx ?st = Inr (riskScore (last (userHistory ?st user)))"
      "getCautionWindow ctx ?st = Inr (cautionWindow (last (userHistory ?st user)))"
      by (auto simp add: getLatestMetrics_def getRiskScore_def getCautionWindow_def Let_def)
  qed
qed

theorem latest_accessors_NoSubmission_witness:
  "map tx_timestamp sample_run = [1700000000, 1700000012, 1700000024, 1700000036]
   \<and> successful_submits sample_verifier 100 13 sample_run deployed = 0
   \<and> getLatestMetrics \<lparr>this = 100, msg_sender = 13, block_timestamp = 1700000048\<rparr>
         (run sample_verifier 100 sample_run deployed) = Inl NoSubmission
   \<and> getRiskScore \<lparr>this = 100, msg_sender = 13, block_timestamp = 1700000048\<rparr>
         (run sample_verifier 100 sample_run deployed) = Inl NoSubmission
   \<and> getCautionWindow \<lparr>this = 100, msg_sender = 13, block_timestamp = 1700000048\<rparr>
         (run sample_verifier 100 sample_run deployed) = Inl NoSubmission
   \<and> successful_submits sample_verifier 100 11 sample_run deployed = 2
   \<and> getLatestMetrics sample_context (run sample_verifier 100 sample_run deployed)
       = Inr (Ciphertext (ExternalInput 100) 100, Ciphertext (ExternalInput 50) 50,
              Ciphertext (ExternalInput 10) 10, 1700000036)
   \<and> getRiskScore sample_context (run sample_verifier 100 sample_run deployed)
       = Inr (fst (calculateRiskScore (Ciphertext (ExternalInput 100) 100)
                (Ciphertext (ExternalInput 50) 50) (Ciphertext (ExternalInput 10) 10)))
   \<and> getCautionWindow sample_context (run sample_verifier 100 sample_run deployed)
       = Inr (snd (calculateRiskScore (Ciphertext (ExternalInput 100) 100)
                (Ciphertext (ExternalInput 50) 50) (Ciphertext (ExternalInput 10) 10)))"
proof -
  have pos: "\<forall>t \<in> set sample_run. 0 < tx_timestamp t"
    by (simp add: sample_run_def sample_submit_def)
  have a: "msg_sender \<lparr>this = 100, msg_sender = 13, block_timestamp = 1700000048\<rparr> = 13"
    by simp
  have b: "msg_sender sample_context = 11" by simp
  from latest_accessors_NoSubmission [OF pos a, of sample_verifier 100]
    latest_accessors_NoSubmission [OF pos b, of sample_verifier 100]
  show ?thesis
    by (simp add: sample_run_submits sample_run_timestamps sample_run_ledger new_record_def)
qed

text \<open>
  Claim C6 as stated fails on the freshly deployed contract: the count and the summary
  are returned, and the indexed read reverts with a different reason.
\<close>

theorem count_and_summary_do_not_fail_counterexample:
  "successful_submits sample_verifier 100 11 [] deployed = 0
   \<and> getHistoryCount sample_context (run sample_verifier 100 [] deployed) = Inr 0
   \<and> getHistoryCount sample_context (run sample_verifier 100 [] deployed) \<noteq> Inl NoSubmission
   \<and> getSummary sample_context (run sample_verifier 100 [] deployed) = Inr (0, 0)
   \<and> getSummary sample_context (run sample_verifier 100 [] deployed) \<noteq> Inl NoSubmission
   \<and> getMetricsAtIndex sample_context 0 (run sample_verifier 100 [] deployed)
       = Inl (Revert ''Index out of bounds'')
   \<and> getMetricsAtIndex sample_context 0 (run sample_verifier 100 [] deployed)
       \<noteq> Inl NoSubmission"
  by (simp add: getHistoryCount_def getSummary_def getMetricsAtIndex_def zero_record_def
      IndexOutOfBounds_def NoSubmission_def)

text \<open>
  Claim C6, as amended. Before a user's first returned \<open>submitMetrics\<close>, the accessors
  \<open>getRiskScore\<close>, \<open>getCautionWindow\<close> and \<open>getLatestMetrics\<close> revert with "No metrics
  submitted yet", \<open>getMetricsAtIndex\<close> reverts with "Index out of bounds" at every index,
  and \<open>getHistoryCount\<close> and \<open>getSummary\<close> do not revert: they return 0 and (0, 0).
\<close>

theorem accessors_before_first_submit:
  assumes "successful_submits verifier contract user txs deployed = 0"
      and "msg_sender ctx = user"
  shows "getRiskScore ctx (run verifier contract txs deployed) = Inl NoSubmission
       \<and> getCautionWindow ctx (run verifier contract txs deployed) = Inl NoSubmission
       \<and> getLatestMetrics ctx (run verifier contract txs deployed) = Inl NoSubmission
       \<and> getMetricsAtIndex ctx index (run verifier contract txs deployed) = Inl IndexOutOfBounds
       \<and> getHistoryCount ctx (run verifier contract txs deployed) = Inr 0
       \<and> getSummary ctx (run verifier contract txs deployed) = Inr (0, 0)"
proof -
  let ?st = "run verifier contract txs deployed"
  have inv: "ledger_invariant ?st user"
    by (rule run_invariant [OF deployed_invariant])
  have "length (userHistory ?st user) = 0"
    using run_history_length [of verifier contract txs deployed user] assms(1) by simp
  then have empty: "userHistory ?st user = []" by simp
  from inv empty have count: "submissionCount ?st user = 0"
    by (simp add: ledger_invariant_def)
  from latest_when_empty [OF inv empty] empty count assms(2) show ?thesis
    by (simp add: getRiskScore_def getCautionWindow_def getLatestMetrics_def
        getMetricsAtIndex_def getHistoryCount_def getSummary_def)
qed

theorem accessors_before_first_submit_witness:
  "successful_submits sample_verifier 100 13 sample_run deployed = 0
   \<and> getRiskScore \<lparr>this = 100, msg_sender = 13, block_timestamp = 1700000048\<rparr>
         (run sample_verifier 100 sample_run deployed) = Inl NoSubmission
   \<and> getMetricsAtIndex \<lparr>this = 100, msg_sender = 13, block_timestamp = 1700000048\<rparr> 0
         (run sample_verifier 100 sample_run deployed) = Inl IndexOutOfBounds
   \<and> getHistoryCount \<lparr>this = 100, msg_sender = 13, block_timestamp = 1700000048\<rparr>
         (run sample_verifier 100 sample_run deployed) = Inr 0
   \<and> getSummary \<lparr>this = 100, msg_sender = 13, block_timestamp = 1700000048\<rparr>
         (run sample_verifier 100 sample_run deployed) = Inr (0, 0)"
proof -
  have a: "msg_sender \<lparr>this = 100, msg_sender = 13, block_timestamp = 1700000048\<rparr> = 13"
    by simp
  from accessors_before_first_submit [OF sample_run_submits(1) a, of 0] sample_run_submits(1)
  show ?thesis by simp
qed

section \<open>Claims on the disclosure client\<close>

lemma BigInt_Inr: "BigInt x = Inr v \<longleftrightarrow> x = JsBigint v"
  by (cases x) auto

lemma js_get_bigint: "js_get response key = JsBigint v \<longleftrightarrow> response key = Some v"
  by (auto simp add: js_get_def split: option.splits)

lemma js_get_own: "response key = Some v \<Longrightarrow> js_get response key = JsBigint v"
  by (simp add: js_get_def)

lemma extract_values_step:
  assumes "extract_values response (h # handles) acc = Inr vs"
  shows "\<exists>v. response (toString h) = Some v
           \<and> extract_values response handles (acc @ [v]) = Inr vs"
proof (cases "js_get response (toString h)")
  case JsUndefined
  with assms show ?thesis by (simp add: Let_def)
next
  case (JsBigint v)
  with assms have "extract_values response handles (acc @ [v]) = Inr vs"
    by (simp add: Let_def)
  moreover from JsBigint have "response (toString h) = Some v"
    by (simp add: js_get_bigint)
  ultimately show ?thesis by blast
next
  case JsInherited
  with assms show ?thesis by (simp add: Let_def)
qed

lemma extract_values_Inr:
  "extract_values response handles acc = Inr vs
     \<Longrightarrow> \<exists>rest. vs = acc @ rest
          \<and> map (\<lambda>h. response (toString h)) handles = map Some rest"
proof (induction handles arbitrary: acc)
  case Nil
  then show ?case by simp
next
  case (Cons h handles)
  from extract_values_step [OF Cons.prems] obtain v where
    v: "response (toString h) = Some v"
    and r: "extract_values response handles (acc @ [v]) = Inr vs"
    by blast
  from Cons.IH [OF r] v show ?case by auto
qed

lemma extract_values_missing:
  "\<exists>h \<in> set handles. response (toString h) = None
     \<Longrightarrow> \<exists>e. extract_values response handles acc = Inl e"
proof (induction handles arbitrary: acc)
  case Nil
  then show ?case by simp
next
  case (Cons h handles)
  show ?case
  proof (cases "response (toString h)")
    case None
    then have "js_get response (toString h) \<noteq> JsUndefined
        \<longrightarrow> js_get response (toString h) = JsInherited"
      by (simp add: js_get_def)
    then show ?thesis by (auto simp add: Let_def)
  next
    case (Some v)
    with Cons.prems have "\<exists>h \<in> set handles. response (toString h) = None" by auto
    from Cons.IH [OF this, of "acc @ [v]"] Some show ?thesis
      by (simp add: Let_def js_get_own)
  qed
qed

lemma userDecryptBatch_stopped:
  assumes "handles \<noteq> []" "\<not> reaches_signing st now contractAddress signer"
  shows "\<exists>e. userDecryptBatch st now handles contractAddress signer = ([], Inl e)"
  using assms
  by (auto simp add: userDecryptBatch_def reaches_signing_def guards_pass_def
      built_statement_def Let_def split: option.splits sum.splits prod.splits)

lemma userDecryptBatch_signing:
  assumes "handles \<noteq> []" "reaches_signing st now contractAddress signer"
  shows "\<exists>inst keys (statement :: EIP712) verification sign.
      fhevmInstance st = Some inst
    \<and> userDecryptBatch st now handles contractAddress signer =
       (case sign (domain statement) verification (message statement) of
          Inl e \<Rightarrow>
            ([SignatureRequest (domain statement) verification (message statement)], Inl e)
        | Inr signature' \<Rightarrow>
            ([SignatureRequest (domain statement) verification (message statement),
              DecryptRequest (batch_request st now handles contractAddress keys signature')],
             (case userDecrypt inst
                     (batch_request st now handles contractAddress keys signature') of
                Inl e \<Rightarrow> Inl e
              | Inr (ResultBigint b) \<Rightarrow> Inl (Error ''Unexpected result type: bigint'')
              | Inr (ResultRecord response) \<Rightarrow> extract_values response handles [])))"
proof -
  from assms(2) obtain inst pk sk mk and statement :: EIP712 and verification sign where
    i: "fhevmInstance st = Some inst"
    and k: "generateKeypair inst = Some (Inr (pk, sk))" "createEIP712 inst = Some mk"
      "mk pk [contractAddress] (now div 1000) 365 = Inr statement"
      "types statement = Some verification" "signTypedData signer = Some sign"
    and g: "\<not> falsy (account st)" "contractAddress \<noteq> []" "take 2 contractAddress = ''0x''"
      "length contractAddress = 42"
    by (auto simp add: reaches_signing_def guards_pass_def built_statement_def
        split: option.splits sum.splits prod.splits)
  have "userDecryptBatch st now handles contractAddress signer =
       (case sign (domain statement) verification (message statement) of
          Inl e \<Rightarrow>
            ([SignatureRequest (domain statement) verification (message statement)], Inl e)
        | Inr signature' \<Rightarrow>
            ([SignatureRequest (domain statement) verification (message statement),
              DecryptRequest (batch_request st now handles contractAddress (pk, sk) signature')],
             (case userDecrypt inst
                     (batch_request st now handles contractAddress (pk, sk) signature') of
                Inl e \<Rightarrow> Inl e
              | Inr (ResultBigint b) \<Rightarrow> Inl (Error ''Unexpected result type: bigint'')
              | Inr (ResultRecord response) \<Rightarrow> extract_values response handles [])))"
    using assms(1) i k g
    by (simp add: userDecryptBatch_def batch_request_def Let_def
        split: sum.splits decrypt_result.splits)
  with i show ?thesis by blast
qed

lemma userDecryptBatch_cases:
  assumes "handles \<noteq> []"
  obtains (stopped) e where "\<not> reaches_signing st now contractAddress signer"
      "userDecryptBatch st now handles contractAddress signer = ([], Inl e)"
  | (unsigned) ask e where "reaches_signing st now contractAddress signer"
      "is_signature_request ask"
      "userDecryptBatch st now handles contractAddress signer = ([ask], Inl e)"
  | (sent) inst ask request where "reaches_signing st now contractAddress signer"
      "fhevmInstance st = Some inst" "is_signature_request ask"
      "map fst (handleContractPairs request) = map toString handles"
      "userDecryptBatch st now handles contractAddress signer =
         ([ask, DecryptRequest request],
          (case userDecrypt inst request of
             Inl e \<Rightarrow> Inl e
           | Inr (ResultBigint b) \<Rightarrow> Inl (Error ''Unexpected result type: bigint'')
           | Inr (ResultRecord response) \<Rightarrow> extract_values response handles []))"
proof (cases "reaches_signing st now contractAddress signer")
  case False
  from userDecryptBatch_stopped [OF assms False]
  obtain e where "userDecryptBatch st now handles contractAddress signer = ([], Inl e)"
    by blast
  with False show ?thesis by (rule stopped)
next
  case True
  from userDecryptBatch_signing [OF assms True]
  obtain inst keys and statement :: EIP712 and verification sign where
    i: "fhevmInstance st = Some inst"
    and eq: "userDecryptBatch st now handles contractAddress signer =
       (case sign (domain statement) verification (message statement) of
          Inl e \<Rightarrow>
            ([SignatureRequest (domain statement) verification (message statement)], Inl e)
        | Inr signature' \<Rightarrow>
            ([SignatureRequest (domain statement) verification (message statement),
              DecryptRequest (batch_request st now handles contractAddress keys signature')],
             (case userDecrypt inst
                     (batch_request st now handles contractAddress keys signature') of
                Inl e \<Rightarrow> Inl e
              | Inr (ResultBigint b) \<Rightarrow> Inl (Error ''Unexpected result type: bigint'')
              | Inr (ResultRecord response) \<Rightarrow> extract_values response handles [])))"
    by blast
  let ?ask = "SignatureRequest (domain statement) verification (message statement)"
  have ask: "is_signature_request ?ask" by simp
  show ?thesis
  proof (cases "sign (domain statement) verification (message statement)")
    case (Inl e)
    with eq have "userDecryptBatch st now handles contractAddress signer = ([?ask], Inl e)"
      by simp
    with True ask show ?thesis by (rule unsigned)
  next
    case (Inr signature')
    let ?req = "batch_request st now handles contractAddress keys signature'"
    have pairs: "map fst (handleContractPairs ?req) = map toString handles"
      by (simp add: batch_request_def comp_def)
    from eq Inr have "userDecryptBatch st now handles contractAddress signer =
         ([?ask, DecryptRequest ?req],
          (case userDecrypt inst ?req of
             Inl e \<Rightarrow> Inl e
           | Inr (ResultBigint b) \<Rightarrow> Inl (Error ''Unexpected result type: bigint'')
           | Inr (ResultRecord response) \<Rightarrow> extract_values response handles []))"
      by simp
    with True i ask pairs show ?thesis by (rule sent)
  qed
qed

text \<open>
  Claim C8, as amended. For a non-empty batch, a call of \<open>userDecryptBatch\<close> asks the signer
  for at most one signature whatever the number of handles: exactly one when the call
  reaches the signing step (the guards pass, \<open>generateKeypair()\<close> and \<open>createEIP712(...)\<close>
  return without a throw, the typed data has its \<open>types\<close> and the signer has
  \<open>signTypedData\<close>), and none when it is stopped before. A call that returns values returns
  one value per requested handle, in request order, each the value the oracle's response
  holds for that handle; and when the response lacks any requested handle the call fails
  as a whole, returning no value.
\<close>

theorem userDecryptBatch_one_signature_all_or_nothing:
  assumes "handles \<noteq> []"
  shows "signature_requests (fst (userDecryptBatch st now handles contractAddress signer))
           = (if reaches_signing st now contractAddress signer then 1 else 0)
       \<and> signature_requests (fst (userDecryptBatch st now handles contractAddress signer))
           \<le> 1
       \<and> (\<forall>values.
             snd (userDecryptBatch st now handles contractAddress signer) = Inr values
           \<longrightarrow> length values = length handles
             \<and> (\<exists>instance request response.
                   fhevmInstance st = Some instance
                 \<and> DecryptRequest request
                     \<in> set (fst (userDecryptBatch st now handles contractAddress signer))
                 \<and> map fst (handleContractPairs request) = map toString handles
                 \<and> userDecrypt instance request = Inr (ResultRecord response)
                 \<and> map (\<lambda>h. response (toString h)) handles = map Some values))
       \<and> (\<forall>instance request response.
             fhevmInstance st = Some instance
           \<longrightarrow> DecryptRequest request
                 \<in> set (fst (userDecryptBatch st now handles contractAddress signer))
           \<longrightarrow> userDecrypt instance request = Inr (ResultRecord response)
           \<longrightarrow> (\<exists>h \<in> set handles. response (toString h) = None)
           \<longrightarrow> (\<exists>e. snd (userDecryptBatch st now handles contractAddress signer) = Inl e))"
proof (intro conjI allI impI)
  show one: "signature_requests (fst (userDecryptBatch st now handles contractAddress signer))
           = (if reaches_signing st now contractAddress signer then 1 else 0)"
    using assms by (cases rule: userDecryptBatch_cases [of handles st now contractAddress signer])
      (simp_all add: signature_requests_def)
  then show "signature_requests (fst (userDecryptBatch st now handles contractAddress signer))
           \<le> 1"
    by simp
next
  fix vs
  assume ok: "snd (userDecryptBatch st now handles contractAddress signer) = Inr vs"
  from assms have "\<exists>instance request response.
                   fhevmInstance st = Some instance
                 \<and> DecryptRequest request
                     \<in> set (fst (userDecryptBatch st now handles contractAddress signer))
                 \<and> map fst (handleContractPairs request) = map toString handles
                 \<and> userDecrypt instance request = Inr (ResultRecord response)
                 \<and> map (\<lambda>h. response (toString h)) handles = map Some vs"
  proof (cases rule: userDecryptBatch_cases [of handles st now contractAddress signer])
    case (stopped e)
    with ok show ?thesis by simp
  next
    case (unsigned ask e)
    with ok show ?thesis by simp
  next
    case (sent inst ask request)
    with ok obtain response where
      r: "userDecrypt inst request = Inr (ResultRecord response)"
      and x: "extract_values response handles [] = Inr vs"
      by (auto split: sum.splits decrypt_result.splits)
    from extract_values_Inr [OF x]
    have "map (\<lambda>h. response (toString h)) handles = map Some vs" by simp
    with sent r show ?thesis by auto
  qed
  then show "\<exists>instance request response.
                   fhevmInstance st = Some instance
                 \<and> DecryptRequest request
                     \<in> set (fst (userDecryptBatch st now handles contractAddress signer))
                 \<and> map fst (handleContractPairs request) = map toString handles
                 \<and> userDecrypt instance request = Inr (ResultRecord response)
                 \<and> map (\<lambda>h. response (toString h)) handles = map Some vs" .
  then obtain response :: "string \<Rightarrow> int option" where
    "map (\<lambda>h. response (toString h)) handles = map Some vs" by blast
  then have "length (map (\<lambda>h. response (toString h)) handles) = length (map Some vs)"
    by simp
  then show "length vs = length handles" by simp
next
  fix other request response
  assume a: "fhevmInstance st = Some other"
    and b: "DecryptRequest request
          \<in> set (fst (userDecryptBatch st now handles contractAddress signer))"
    and c: "userDecrypt other request = Inr (ResultRecord response)"
    and d: "\<exists>h \<in> set handles. response (toString h) = None"
  from assms show "\<exists>e. snd (userDecryptBatch st now handles contractAddress signer) = Inl e"
  proof (cases rule: userDecryptBatch_cases [of handles st now contractAddress signer])
    case (stopped e)
    then show ?thesis by simp
  next
    case (unsigned ask e)
    then show ?thesis by simp
  next
    case (sent inst ask request')
    with a b have "other = inst" "request = request'" by auto
    with c sent extract_values_missing [OF d, of "[]"] show ?thesis by simp
  qed
qed

lemma sample_address_ok:
  "sample_address \<noteq> []" "take 2 sample_address = ''0x''" "length sample_address = 42"
  by (simp_all add: sample_address_def)

lemma sample_guards:
  "guards_pass sample_provider sample_address"
  "guards_pass sample_throwing sample_address"
  "\<not> guards_pass sample_disconnected sample_address"
  by (simp_all add: guards_pass_def sample_provider_def sample_disconnected_def
      sample_throwing_def sample_instance_def sample_address_ok)

lemma sample_reaches:
  "reaches_signing sample_provider 1700000000999 sample_address sample_signer"
  "\<not> reaches_signing sample_throwing 1700000000999 sample_address sample_signer"
  unfolding reaches_signing_def using sample_guards
  by (simp_all add: built_statement_def sample_provider_def sample_throwing_def
      sample_instance_def sample_createEIP712_def sample_signer_def)

lemma toString_17: "bigint_toString 17 = ''17''"
  by (simp add: bigint_toString_def nat_toString.simps digit_char_def)

lemma sample_batch:
  "userDecryptBatch sample_provider 1700000000999
     [HandleString ''0xbb'', HandleBigint 17, HandleString ''0xaa''] sample_address sample_signer
   = ([SignatureRequest ''Decryption'' ''publicKey'' ''public'',
       DecryptRequest
         \<lparr>handleContractPairs =
            [(''0xbb'', sample_address), (''17'', sample_address), (''0xaa'', sample_address)],
          privateKey = ''private'', publicKey = ''public'', signature = ''signed'',
          contractAddresses = [sample_address], userAddress = ''0xuser'',
          startTimestamp = 1700000000, durationDays = 365\<rparr>],
      Inr [9, 3, 7])"
  by (simp add: userDecryptBatch_def sample_provider_def sample_instance_def sample_signer_def
      sample_sign_def sample_createEIP712_def sample_oracle_def sample_address_ok toString_17
      js_get_def Let_def)

lemma sample_batch_missing:
  "userDecryptBatch sample_provider 1700000000999
     [HandleString ''0xaa'', HandleString ''0xcc''] sample_address sample_signer
   = ([SignatureRequest ''Decryption'' ''publicKey'' ''public'',
       DecryptRequest
         \<lparr>handleContractPairs = [(''0xaa'', sample_address), (''0xcc'', sample_address)],
          privateKey = ''private'', publicKey = ''public'', signature = ''signed'',
          contractAddresses = [sample_address], userAddress = ''0xuser'',
          startTimestamp = 1700000000, durationDays = 365\<rparr>],
      Inl (Error ''Failed to decrypt handle 0xcc''))"
  by (simp add: userDecryptBatch_def sample_provider_def sample_instance_def sample_signer_def
      sample_sign_def sample_createEIP712_def sample_oracle_def sample_address_ok
      js_get_def object_prototype_keys_def Let_def)

lemma sample_batch_inherited:
  "userDecryptBatch sample_provider 1700000000999
     [HandleString ''0xaa'', HandleString ''constructor''] sample_address sample_signer
   = ([SignatureRequest ''Decryption'' ''publicKey'' ''public'',
       DecryptRequest
         \<lparr>handleContractPairs =
            [(''0xaa'', sample_address), (''constructor'', sample_address)],
          privateKey = ''private'', publicKey = ''public'', signature = ''signed'',
          contractAddresses = [sample_address], userAddress = ''0xuser'',
          startTimestamp = 1700000000, durationDays = 365\<rparr>],
      Inl SyntaxError)"
  by (simp add: userDecryptBatch_def sample_provider_def sample_instance_def sample_signer_def
      sample_sign_def sample_createEIP712_def sample_oracle_def sample_address_ok
      js_get_def object_prototype_keys_def Let_def)

lemma sample_batch_throwing:
  "userDecryptBatch sample_throwing 1700000000999
     [HandleString ''0xaa''] sample_address sample_signer
   = ([], Inl (Error ''keypair generation failed''))"
  by (simp add: userDecryptBatch_def sample_throwing_def sample_address_ok)

theorem userDecryptBatch_one_signature_all_or_nothing_witness:
  "[HandleString ''0xbb'', HandleBigint 17, HandleString ''0xaa''] \<noteq> []
   \<and> reaches_signing sample_provider 1700000000999 sample_address sample_signer
   \<and> signature_requests (fst (userDecryptBatch sample_provider 1700000000999
         [HandleString ''0xbb'', HandleBigint 17, HandleString ''0xaa'']
         sample_address sample_signer)) = 1
   \<and> snd (userDecryptBatch sample_provider 1700000000999
         [HandleString ''0xbb'', HandleBigint 17, HandleString ''0xaa'']
         sample_address sample_signer) = Inr [9, 3, 7]
   \<and> signature_requests (fst (userDecryptBatch sample_provider 1700000000999
         [HandleString ''0xaa'', HandleString ''0xcc''] sample_address sample_signer)) = 1
   \<and> snd (userDecryptBatch sample_provider 1700000000999
         [HandleString ''0xaa'', HandleString ''0xcc''] sample_address sample_signer)
       = Inl (Error ''Failed to decrypt handle 0xcc'')
   \<and> snd (userDecryptBatch sample_provider 1700000000999
         [HandleString ''0xaa'', HandleString ''constructor''] sample_address sample_signer)
       = Inl SyntaxError
   \<and> guards_pass sample_throwing sample_address
   \<and> signature_requests (fst (userDecryptBatch sample_throwing 1700000000999
         [HandleString ''0xaa''] sample_address sample_signer)) = 0"
proof -
  have n: "[HandleString ''0xbb'', HandleBigint 17, HandleString ''0xaa''] \<noteq> []"
    "[HandleString ''0xaa'', HandleString ''0xcc''] \<noteq> []"
    "[HandleString ''0xaa'', HandleString ''constructor''] \<noteq> []"
    "[HandleString ''0xaa''] \<noteq> []"
    by simp_all
  from userDecryptBatch_one_signature_all_or_nothing [OF n(1), of sample_provider
      1700000000999 sample_address sample_signer]
    userDecryptBatch_one_signature_all_or_nothing [OF n(2), of sample_provider
      1700000000999 sample_address sample_signer]
    userDecryptBatch_one_signature_all_or_nothing [OF n(3), of sample_provider
      1700000000999 sample_address sample_signer]
    userDecryptBatch_one_signature_all_or_nothing [OF n(4), of sample_throwing
      1700000000999 sample_address sample_signer]
  show ?thesis
    by (simp add: sample_guards sample_reaches sample_batch sample_batch_missing
        sample_batch_inherited sample_batch_throwing)
qed

text \<open>
  Claim C8 as stated fails for a non-empty batch when no account is connected: the call
  is stopped by its guard and no signature is requested.
\<close>

theorem guarded_run_requests_no_signature_counterexample:
  "signature_requests (fst (userDecryptBatch sample_disconnected 1700000000999
       [HandleString ''0xaa''] sample_address sample_signer)) = 0
   \<and> snd (userDecryptBatch sample_disconnected 1700000000999
       [HandleString ''0xaa''] sample_address sample_signer)
     = Inl (Error ''No account connected'')"
  by (simp add: userDecryptBatch_def sample_disconnected_def signature_requests_def)

end
